theory Spec2Isabelle
  imports Complex_Main
begin

section \<open>Data model\<close>

text \<open>
  The Python classes of \<^verbatim>\<open>backend/models\<close> become records. Floats are modelled as
  reals, UUIDs as natural numbers, Python's \<^verbatim>\<open>None\<close> as \<open>None\<close> of an option type, a
  dictionary as an association list in insertion order (looked up with \<open>map_of\<close>).
  Exceptions are values of the type \<open>error\<close>; a function that can raise returns
  \<open>error + 'a\<close>.
\<close>

datatype error =
    AttributeError
  | ZeroDivisionError
  | IndexError
  | ValueError
  | UpstreamFailure
  | FloatInfinity

datatype WaypointStatus = PENDING | ACTIVE | PASSED | BLOCKED

type_synonym uuid = nat

record point =
  name :: string
  latitude :: real
  longitude :: real

record waypoint = point +
  wp_id :: uuid
  order :: nat
  status :: WaypointStatus

record airport = point +
  iata_code :: string
  city :: string
  country :: string

record aircraft =
  cruise_speed_kmh :: real
  fuel_consumption_rate_kg_hr :: real
  fuel_capacity_liters :: real

type_synonym sample = "(string \<times> real) list"
type_synonym weather = "(string \<times> sample) list"

text \<open>
  A route. The attribute \<^verbatim>\<open>reroute_history\<close> is set only by \<^verbatim>\<open>from_dict\<close> and by the
  path splicer; every reader treats a missing attribute like the empty list
  (\<^verbatim>\<open>not hasattr(...) or not ...\<close>, \<^verbatim>\<open>getattr(..., [])\<close>), so the model keeps one list.
  \<^verbatim>\<open>estimated_time\<close> can hold \<^verbatim>\<open>None\<close>. The creation timestamp plays no role in any
  computation and is left out.
\<close>

record route =
  route_id :: uuid
  route_name :: string
  origin :: "airport option"
  destination :: "airport option"
  waypoints :: "waypoint list"
  path_type :: string
  optimization_method :: string
  distance :: real
  fitness_score :: real
  weather_data :: weather
  fuel_consumption :: real
  estimated_time :: "real option"
  leg_distances :: "real list"
  leg_times :: "real list"
  reroute_history :: "(string \<times> string) list"

text \<open>
  \<^verbatim>\<open>calculate_distance\<close> and \<^verbatim>\<open>calculate_bearing\<close> are methods of the point classes,
  whose module is not part of the sources at hand. Both are functions of the coordinates
  of the two points; every function below that calls them takes them as the parameters
  \<open>cd\<close> and \<open>cb\<close>.
\<close>

type_synonym geo = "real \<times> real \<Rightarrow> real \<times> real \<Rightarrow> real"

definition coords :: "'a point_scheme \<Rightarrow> real \<times> real" where
  "coords p = (latitude p, longitude p)"

subsection \<open>Python primitives\<close>

text \<open>\<^verbatim>\<open>d.get(k, default)\<close> on a dictionary.\<close>

definition dict_get :: "('k \<times> 'v) list \<Rightarrow> 'k \<Rightarrow> 'v \<Rightarrow> 'v" where
  "dict_get d k dflt = (case map_of d k of None \<Rightarrow> dflt | Some v \<Rightarrow> v)"

text \<open>\<^verbatim>\<open>k in d\<close> on a dictionary.\<close>

definition dict_has :: "('k \<times> 'v) list \<Rightarrow> 'k \<Rightarrow> bool" where
  "dict_has d k = (map_of d k \<noteq> None)"

text \<open>Python's \<^verbatim>\<open>x % 360\<close> on floats: the result has the sign of the divisor.\<close>

definition mod360 :: "real \<Rightarrow> real" where
  "mod360 x = x - 360 * of_int \<lfloor>x / 360\<rfloor>"

definition radians :: "real \<Rightarrow> real" where
  "radians x = x * pi / 180"

definition degrees :: "real \<Rightarrow> real" where
  "degrees x = x * 180 / pi"

text \<open>\<^verbatim>\<open>math.atan2(y, x)\<close>, without the signed zeros of IEEE floats.\<close>

definition atan2 :: "real \<Rightarrow> real \<Rightarrow> real" where
  "atan2 y x =
     (if 0 < x then arctan (y / x)
      else if x < 0 \<and> 0 \<le> y then arctan (y / x) + pi
      else if x < 0 \<and> y < 0 then arctan (y / x) - pi
      else if 0 < y then pi / 2
      else if y < 0 then - (pi / 2)
      else 0)"

text \<open>\<^verbatim>\<open>str(n)\<close> of a non-negative integer, used in f-strings.\<close>

definition digit_char :: "nat \<Rightarrow> char" where
  "digit_char d = ''0123456789'' ! d"

fun str_nat :: "nat \<Rightarrow> string" where
  "str_nat n =
     (if n < 10 then [digit_char n]
      else str_nat (n div 10) @ [digit_char (n mod 10)])"

declare str_nat.simps [simp del]

section \<open>The cost model of \<^verbatim>\<open>models/route.py\<close>\<close>

subsection \<open>\<^verbatim>\<open>get_current_waypoint\<close>\<close>

text \<open>
  The argument \<open>current_time\<close> defaults to \<^verbatim>\<open>None\<close> and is then replaced by the clock
  reading \<open>utcnow\<close>; times are modelled as naturals, the falsy one being \<^verbatim>\<open>None\<close>.
\<close>

definition get_current_waypoint :: "nat \<Rightarrow> route \<Rightarrow> nat option \<Rightarrow> waypoint option" where
  "get_current_waypoint utcnow r current_time =
     (let current_time = (case current_time of None \<Rightarrow> utcnow | Some t \<Rightarrow> t);
          active_waypoints = filter (\<lambda>wp. status wp = ACTIVE) (waypoints r)
      in case active_waypoints of [] \<Rightarrow> None | w # _ \<Rightarrow> Some w)"

subsection \<open>\<^verbatim>\<open>calculate_total_distance\<close>\<close>

text \<open>
  The legs the source collects: origin to first waypoint (when the origin is set and the
  waypoint list is non-empty), every consecutive pair of waypoints, last waypoint to
  destination (when the destination is set and the list is non-empty).
\<close>

definition route_legs :: "route \<Rightarrow> ((real \<times> real) \<times> (real \<times> real)) list" where
  "route_legs r =
     (case (origin r, waypoints r) of
        (Some a, w # _) \<Rightarrow> [(coords a, coords w)]
      | _ \<Rightarrow> [])
     @ map (\<lambda>(u, v). (coords u, coords v)) (zip (waypoints r) (tl (waypoints r)))
     @ (case (destination r, waypoints r) of
        (Some a, _ # _) \<Rightarrow> [(coords (last (waypoints r)), coords a)]
      | _ \<Rightarrow> [])"

definition calculate_total_distance :: "geo \<Rightarrow> route \<Rightarrow> real \<times> route" where
  "calculate_total_distance cd r =
     (let leg_distances = map (\<lambda>(s, e). cd s e) (route_legs r);
          total = sum_list leg_distances
      in (total, r\<lparr>leg_distances := leg_distances, distance := total\<rparr>))"

subsection \<open>\<^verbatim>\<open>average_bearing\<close>\<close>

definition initial_bearing :: "waypoint \<Rightarrow> waypoint \<Rightarrow> real" where
  "initial_bearing wp1 wp2 =
     (let bearing = atan2
            (sin (radians (longitude wp2 - longitude wp1)) * cos (radians (latitude wp2)))
            (cos (radians (latitude wp1)) * sin (radians (latitude wp2))
               - sin (radians (latitude wp1)) * cos (radians (latitude wp2))
                   * cos (radians (longitude wp2 - longitude wp1)));
          bearing = degrees bearing
      in mod360 (bearing + 360))"

definition average_bearing :: "route \<Rightarrow> real" where
  "average_bearing r =
     (if length (waypoints r) < 2 then 0
      else let bearings = map (\<lambda>(wp1, wp2). initial_bearing wp1 wp2)
                            (zip (waypoints r) (tl (waypoints r)))
           in sum_list bearings / real (length bearings))"

subsection \<open>\<^verbatim>\<open>calculate_estimated_time\<close>\<close>

text \<open>One round of the loop over the weather samples: the accumulated wind effect and
  the number of samples that carry both wind fields.\<close>

fun wind_effect_step :: "real \<Rightarrow> real \<times> nat \<Rightarrow> sample \<Rightarrow> real \<times> nat" where
  "wind_effect_step avg_bearing (wind_effect, num_points) weather =
     (if dict_has weather ''wind_speed'' \<and> dict_has weather ''wind_direction'' then
        let wind_speed = dict_get weather ''wind_speed'' 0;
            wind_direction = dict_get weather ''wind_direction'' 0
        in (if 0 \<le> \<bar>wind_direction - avg_bearing\<bar> \<and> \<bar>wind_direction - avg_bearing\<bar> \<le> 90
            then wind_effect + wind_speed * 3.6
            else wind_effect - wind_speed * 3.6,
            num_points + 1)
      else (wind_effect, num_points))"

text \<open>
  Returns \<^verbatim>\<open>None\<close> without touching the route when the aircraft is missing or the stored
  distance is zero. The first division raises when the cruise speed is zero.
\<close>

definition calculate_estimated_time ::
    "route \<Rightarrow> aircraft option \<Rightarrow> error + (real option \<times> route)" where
  "calculate_estimated_time r aircraft =
     (case aircraft of
        None \<Rightarrow> Inr (None, r)
      | Some ac \<Rightarrow>
          if distance r = 0 then Inr (None, r)
          else if cruise_speed_kmh ac = 0 then Inl ZeroDivisionError
          else
            let base_time_hours = distance r / cruise_speed_kmh ac;
                total_time_hours = base_time_hours + 0.5;
                total_time_hours =
                  (if weather_data r \<noteq> [] then
                     case foldl (wind_effect_step (average_bearing r)) (0, 0)
                            (map snd (weather_data r)) of
                       (wind_effect, num_points) \<Rightarrow>
                         if num_points > 0 then
                           let avg_wind_effect = wind_effect / real num_points;
                               effective_speed = cruise_speed_kmh ac + avg_wind_effect
                           in if effective_speed > 0
                              then distance r / effective_speed + 0.5
                              else total_time_hours
                         else total_time_hours
                   else total_time_hours)
            in Inr (Some total_time_hours, r\<lparr>estimated_time := Some total_time_hours\<rparr>))"

subsection \<open>\<^verbatim>\<open>calculate_leg_times\<close>\<close>

text \<open>The fixed half hour for takeoff and landing: a quarter of an hour is added to the
  first and to the last entry (both additions hit the same entry of a one-leg list).\<close>

definition add_fixed_time :: "real list \<Rightarrow> real list" where
  "add_fixed_time lts =
     (if lts = [] then lts
      else let total_fixed = 0.5;
               lt1 = lts[0 := lts ! 0 + total_fixed / 2];
               n = length lt1
           in lt1[n - 1 := lt1 ! (n - 1) + total_fixed / 2])"

definition calculate_leg_times :: "geo \<Rightarrow> route \<Rightarrow> aircraft option \<Rightarrow> real list \<times> route" where
  "calculate_leg_times cd r aircraft =
     (case aircraft of
        None \<Rightarrow> ([], r\<lparr>leg_times := []\<rparr>)
      | Some ac \<Rightarrow>
          let leg_distances = map (\<lambda>(s, e). cd s e) (route_legs r);
              leg_times = map (\<lambda>distance.
                             if cruise_speed_kmh ac > 0 then distance / cruise_speed_kmh ac else 0)
                            leg_distances;
              leg_times = add_fixed_time leg_times
          in (leg_times, r\<lparr>leg_distances := leg_distances, leg_times := leg_times\<rparr>))"

subsection \<open>\<^verbatim>\<open>calculate_fuel_consumption\<close>\<close>

text \<open>The wind factor of one segment, from the segment's bearing and the wind of its
  weather sample.\<close>

definition wind_angle :: "real \<Rightarrow> real \<Rightarrow> real" where
  "wind_angle bearing wind_direction = \<bar>mod360 (wind_direction - bearing + 180) - 180\<bar>"

definition headwind_component :: "real \<Rightarrow> real \<Rightarrow> real" where
  "headwind_component wind_speed wa = wind_speed * cos (radians wa)"

definition tailwind_component :: "real \<Rightarrow> real \<Rightarrow> real" where
  "tailwind_component wind_speed wa = wind_speed * cos (radians (wa - 180))"

definition segment_wind_factor :: "real \<Rightarrow> real \<Rightarrow> real \<Rightarrow> real" where
  "segment_wind_factor bearing wind_speed wind_direction =
     (let wa = wind_angle bearing wind_direction
      in if wa \<le> 90 then
           let headwind = headwind_component wind_speed wa
           in 1.0 + 0.02 * headwind
         else
           let tailwind = tailwind_component wind_speed wa
           in max 0.5 (1.0 - 0.015 * tailwind))"

text \<open>
  One round of the loop over \<^verbatim>\<open>enumerate(self.waypoints[:-1])\<close>: the index \<open>i\<close> runs below
  \<open>length wps - 1\<close>, so both list reads are in range and the segment proportion divides
  by a positive number.
\<close>

text \<open>The key \<^verbatim>\<open>f"waypoint_{i}"\<close> under which the sample of segment \<open>i\<close> is looked up.\<close>

definition waypoint_key :: "nat \<Rightarrow> string" where
  "waypoint_key i = ''waypoint_'' @ str_nat i"

definition fuel_wind_step :: "geo \<Rightarrow> waypoint list \<Rightarrow> weather \<Rightarrow> real \<Rightarrow> nat \<Rightarrow> real" where
  "fuel_wind_step cb wps wd wind_factor i =
     (if int i \<ge> int (length wps) - 1 then wind_factor
      else
        let waypoint = wps ! i;
            next_waypoint = wps ! (i + 1);
            bearing = cb (coords waypoint) (coords next_waypoint);
            key = waypoint_key i
        in case map_of wd key of
             None \<Rightarrow> wind_factor
           | Some w \<Rightarrow>
               let wind_speed = dict_get w ''wind_speed_10m'' 0;
                   wind_direction = dict_get w ''wind_direction_10m'' 0;
                   swf = segment_wind_factor bearing wind_speed wind_direction;
                   segment_proportion = 1.0 / (real (length wps) - 1)
               in wind_factor * (1.0 - segment_proportion) + swf * segment_proportion)"

text \<open>The wind factor after the loop and after the floor of 0.3.\<close>

definition overall_wind_factor :: "geo \<Rightarrow> waypoint list \<Rightarrow> weather \<Rightarrow> real" where
  "overall_wind_factor cb wps wd =
     max 0.3 (foldl (fuel_wind_step cb wps wd) 1.0 [0..<length wps - 1])"

text \<open>
  The source reads \<^verbatim>\<open>aircraft.cruise_speed_kmh\<close> without a test for \<^verbatim>\<open>None\<close> and divides
  by it without a test for zero: both raise.
\<close>

definition calculate_fuel_consumption ::
    "geo \<Rightarrow> route \<Rightarrow> aircraft option \<Rightarrow> weather \<Rightarrow> error + (real \<times> route)" where
  "calculate_fuel_consumption cb r aircraft wd =
     (case aircraft of
        None \<Rightarrow> Inl AttributeError
      | Some ac \<Rightarrow>
          if cruise_speed_kmh ac = 0 then Inl ZeroDivisionError
          else
            let distance_km = distance r;
                flight_hours = distance_km / cruise_speed_kmh ac;
                base_fuel_kg = flight_hours * fuel_consumption_rate_kg_hr ac;
                wind_factor = overall_wind_factor cb (waypoints r) wd;
                altitude_factor = 1.0;
                temperature_factor = 1.0;
                total_fuel_kg = base_fuel_kg * wind_factor * altitude_factor * temperature_factor;
                total_fuel_kg = total_fuel_kg / 2
            in Inr (total_fuel_kg, r\<lparr>fuel_consumption := total_fuel_kg\<rparr>))"

subsection \<open>\<^verbatim>\<open>calculate_fitness_score\<close>\<close>

definition flight_heading_deg :: "route \<Rightarrow> real" where
  "flight_heading_deg r =
     (case (origin r, destination r) of
        (Some a, Some b) \<Rightarrow>
          let delta_lat = latitude b - latitude a;
              delta_lon = longitude b - longitude a
          in mod360 (degrees (atan2 delta_lon delta_lat))
      | _ \<Rightarrow> 0)"

text \<open>The summand of one weather node in the ground-speed loop.\<close>

definition ground_speed_term :: "real \<Rightarrow> sample \<Rightarrow> real" where
  "ground_speed_term heading node =
     (let airspeed_km_h = 900;
          jet_stream_speed = dict_get node ''jet_stream_speed_250hPa'' 0;
          jet_stream_direction = dict_get node ''jet_stream_direction_250hPa'' 0;
          angle_diff = radians \<bar>heading - jet_stream_direction\<bar>;
          jet_stream_component = jet_stream_speed * cos angle_diff;
          ground_speed = airspeed_km_h + jet_stream_component
      in max ground_speed (airspeed_km_h * 0.5))"

definition avg_ground_speed :: "real \<Rightarrow> sample list \<Rightarrow> real" where
  "avg_ground_speed heading weather_nodes =
     foldl (\<lambda>acc node. acc + ground_speed_term heading node) 0 weather_nodes
       / (if weather_nodes \<noteq> [] then real (length weather_nodes) else 1)"

definition turbulence_penalty :: "sample list \<Rightarrow> real" where
  "turbulence_penalty weather_nodes =
     (let turbulence_risk = length (filter
            (\<lambda>node. \<bar>dict_get node ''vertical_velocity_250hPa'' 0\<bar> > 0.5) weather_nodes)
      in if weather_nodes \<noteq> []
         then (real turbulence_risk / real (length weather_nodes)) * 2 else 0)"

definition thunderstorm_penalty :: "sample list \<Rightarrow> real" where
  "thunderstorm_penalty weather_nodes =
     (let thunderstorm_risk = length (filter
            (\<lambda>node. dict_get node ''cape'' 0 > 1000 \<or> dict_get node ''cloud_cover_high'' 0 > 80)
            weather_nodes)
      in if weather_nodes \<noteq> []
         then (real thunderstorm_risk / real (length weather_nodes)) * 3 else 0)"

definition visibility_penalty :: "sample \<Rightarrow> sample \<Rightarrow> real" where
  "visibility_penalty source_weather dest_weather =
     (if dict_get source_weather ''visibility'' 10000 < 5000
         \<or> dict_get dest_weather ''visibility'' 10000 < 5000 then 1.0 else 0)"

definition cloud_cover_penalty :: "sample \<Rightarrow> sample \<Rightarrow> real" where
  "cloud_cover_penalty source_weather dest_weather =
     (if dict_get source_weather ''cloud_cover'' 0 > 80
         \<or> dict_get dest_weather ''cloud_cover'' 0 > 80 then 0.5 else 0)"

definition runway_penalty :: "sample \<Rightarrow> sample \<Rightarrow> real" where
  "runway_penalty source_weather dest_weather =
     (let runway_risk = length (filter
            (\<lambda>w. dict_get w ''precipitation'' 0 > 10 \<or> dict_get w ''rain'' 0 > 5
                  \<or> dict_get w ''showers'' 0 > 5 \<or> dict_get w ''snowfall'' 0 > 1)
            [source_weather, dest_weather])
      in real runway_risk * 0.75)"

definition crosswind_penalty :: "real \<Rightarrow> sample \<Rightarrow> sample \<Rightarrow> real" where
  "crosswind_penalty heading source_weather dest_weather =
     foldl (\<lambda>acc w.
              let wind_speed_10m = dict_get w ''wind_speed_10m'' 0;
                  wind_direction_10m = dict_get w ''wind_direction_10m'' 0;
                  angle_diff = radians \<bar>heading - wind_direction_10m\<bar>;
                  crosswind_component = wind_speed_10m * sin angle_diff
              in if crosswind_component > 20 then acc + 0.5 else acc)
       0 [source_weather, dest_weather]"

definition weather_hazard_penalty :: "sample \<Rightarrow> sample \<Rightarrow> real" where
  "weather_hazard_penalty source_weather dest_weather =
     foldl (\<lambda>acc w. if dict_get w ''weather_code'' 0 > 50 then acc + 0.3 else acc)
       0 [source_weather, dest_weather]"

text \<open>
  The score. The distance is recomputed first when the stored one is not positive; with
  no weather sample, or with a single one, the score is the distance over 1000.
  In the full branch the source sets the flight time to \<^verbatim>\<open>float("inf")\<close> when the average
  ground speed is not positive. The reals have no such value: the model ends with the
  outcome \<open>FloatInfinity\<close> there (every summand of the average is at least 450, so the
  branch is never taken). The division by the fuel capacity raises when the capacity is
  zero.
\<close>

definition calculate_fitness_score ::
    "geo \<Rightarrow> route \<Rightarrow> aircraft option \<Rightarrow> real \<Rightarrow> real \<Rightarrow> error + (real \<times> route)" where
  "calculate_fitness_score cd r0 aircraft weather_weight distance_weight =
     (let r = (if distance r0 \<le> 0 then snd (calculate_total_distance cd r0) else r0)
      in if weather_data r = [] then
           Inr (distance r / 1000, r\<lparr>fitness_score := distance r / 1000\<rparr>)
         else
           let weather_nodes = map snd (weather_data r)
           in if length weather_nodes < 2 then
                Inr (distance r / 1000, r\<lparr>fitness_score := distance r / 1000\<rparr>)
              else
                let heading = flight_heading_deg r;
                    ags = avg_ground_speed heading weather_nodes
                in if \<not> ags > 0 then Inl FloatInfinity
                   else
                     let flight_time_hours = distance r / ags;
                         fuel_consumption_rate =
                           (case aircraft of Some ac \<Rightarrow> fuel_consumption_rate_kg_hr ac
                                           | None \<Rightarrow> 3000);
                         fuel_capacity_kg =
                           (case aircraft of Some ac \<Rightarrow> fuel_capacity_liters ac * 0.8
                                           | None \<Rightarrow> 70000);
                         fuel_consumption_kg = fuel_consumption_rate * flight_time_hours
                     in if fuel_consumption_kg > fuel_capacity_kg \<and> fuel_capacity_kg = 0
                        then Inl ZeroDivisionError
                        else
                          let fuel_penalty =
                                (if fuel_consumption_kg > fuel_capacity_kg
                                 then (fuel_consumption_kg - fuel_capacity_kg)
                                        / fuel_capacity_kg * 10
                                 else 0);
                              source_weather = hd weather_nodes;
                              dest_weather = last weather_nodes;
                              safety_score =
                                turbulence_penalty weather_nodes
                                + thunderstorm_penalty weather_nodes
                                + visibility_penalty source_weather dest_weather
                                + cloud_cover_penalty source_weather dest_weather
                                + runway_penalty source_weather dest_weather
                                + crosswind_penalty heading source_weather dest_weather
                                + weather_hazard_penalty source_weather dest_weather;
                              normalized_fuel = fuel_consumption_kg / 10000;
                              score = weather_weight * safety_score
                                      + distance_weight * normalized_fuel
                                      + fuel_penalty;
                              score = (if distance r > 5000
                                       then score + (distance r - 5000) / 1000 else score)
                          in Inr (score, r\<lparr>fitness_score := score\<rparr>))"


section \<open>The rerouter of \<^verbatim>\<open>services/optimization/ppo_rerouter.py\<close>\<close>

text \<open>
  The three distance and bearing functions the rerouter reaches: the two methods of the
  point classes and \<^verbatim>\<open>geodesic(...).kilometers\<close> of the library \<^verbatim>\<open>geopy\<close>. The field
  \<open>geodesic\<close> is the distance the library computes for two points it accepts.
\<close>

record geometry =
  calculate_distance :: geo
  calculate_bearing :: geo
  geodesic :: geo

text \<open>
  The rerouter object. The weather service is an external collaborator: the model keeps
  its method \<^verbatim>\<open>get_weather_for_route\<close>, which may fail.
\<close>

record rerouter =
  used_route_types :: "string list"
  weather_service :: "(route \<Rightarrow> error + weather) option"
  rr_aircraft :: "aircraft option"
  consider_fuel :: bool

text \<open>
  \<^verbatim>\<open>uuid4()\<close> is modelled by a counter that every function drawing identifiers takes and
  returns: a call yields the current value and increments it.
\<close>

subsection \<open>More Python primitives\<close>

text \<open>The slices \<^verbatim>\<open>xs[:k]\<close> and \<^verbatim>\<open>xs[j:]\<close>; a negative bound counts from the end.\<close>

definition py_take :: "int \<Rightarrow> 'a list \<Rightarrow> 'a list" where
  "py_take k xs = (if k < 0 then take (nat (int (length xs) + k)) xs else take (nat k) xs)"

definition py_drop :: "int \<Rightarrow> 'a list \<Rightarrow> 'a list" where
  "py_drop j xs = (if j < 0 then drop (nat (int (length xs) + j)) xs else drop (nat j) xs)"

text \<open>\<^verbatim>\<open>s.split(c)\<close> with a one-character separator.\<close>

fun split_on :: "char \<Rightarrow> string \<Rightarrow> string list" where
  "split_on c [] = [[]]"
| "split_on c (x # xs) =
     (if x = c then [] # split_on c xs
      else case split_on c xs of p # ps \<Rightarrow> (x # p) # ps | [] \<Rightarrow> [[x]])"

text \<open>The truth value of \<^verbatim>\<open>estimated_time\<close>: \<^verbatim>\<open>None\<close> and zero are falsy.\<close>

definition truthy_time :: "real option \<Rightarrow> bool" where
  "truthy_time t = (case t of None \<Rightarrow> False | Some x \<Rightarrow> x \<noteq> 0)"

subsection \<open>\<^verbatim>\<open>_create_rerouted_path\<close>\<close>

text \<open>One round of the loop that looks for the current position and for the blocked
  waypoint by identifier: a later match overwrites an earlier one.\<close>

definition locate_step :: "uuid \<Rightarrow> uuid \<Rightarrow> int \<times> int \<Rightarrow> nat \<times> waypoint \<Rightarrow> int \<times> int" where
  "locate_step position_id blocked_id acc p =
     (case acc of (current_pos_index, blocked_index) \<Rightarrow>
      case p of (i, wp) \<Rightarrow>
        (if wp_id wp = position_id then int i else current_pos_index,
         if wp_id wp = blocked_id then int i else blocked_index))"

text \<open>
  \<^verbatim>\<open>geodesic((lat1, lon1), (lat2, lon2)).kilometers\<close>: the library builds a point from
  each pair and raises \<^verbatim>\<open>ValueError\<close> for a latitude outside the range from -90 to 90.
\<close>

definition geodesic_kilometers :: "geo \<Rightarrow> real \<times> real \<Rightarrow> real \<times> real \<Rightarrow> error + real" where
  "geodesic_kilometers gd p q =
     (if \<bar>fst p\<bar> \<le> 90 \<and> \<bar>fst q\<bar> \<le> 90 then Inr (gd p q) else Inl ValueError)"

text \<open>One round of the fallback loop over the coordinates; the running minimum starts at
  \<^verbatim>\<open>float("inf")\<close>, which is \<open>None\<close> here.\<close>

definition closest_step ::
    "geo \<Rightarrow> waypoint \<Rightarrow> int \<times> real option \<Rightarrow> nat \<times> waypoint
       \<Rightarrow> error + (int \<times> real option)" where
  "closest_step gd current_position acc p =
     (case acc of (current_pos_index, min_distance) \<Rightarrow>
      case p of (i, wp) \<Rightarrow>
        case geodesic_kilometers gd (coords current_position) (coords wp) of
          Inl e \<Rightarrow> Inl e
        | Inr d \<Rightarrow>
            (case min_distance of
               None \<Rightarrow> Inr (int i, Some d)
             | Some m \<Rightarrow>
                 if d < m then Inr (int i, Some d) else Inr (current_pos_index, min_distance)))"

text \<open>The fallback loop: it stops at the first exception.\<close>

fun closest_loop ::
    "geo \<Rightarrow> waypoint \<Rightarrow> int \<times> real option \<Rightarrow> (nat \<times> waypoint) list
       \<Rightarrow> error + (int \<times> real option)" where
  "closest_loop gd current_position acc [] = Inr acc"
| "closest_loop gd current_position acc (p # ps) =
     (case closest_step gd current_position acc p of
        Inl e \<Rightarrow> Inl e
      | Inr acc \<Rightarrow> closest_loop gd current_position acc ps)"

text \<open>The part of a waypoint name after its last underscore, \<^verbatim>\<open>"alt"\<close> without one.\<close>

definition route_type_of_name :: "string \<Rightarrow> string" where
  "route_type_of_name n =
     (let parts = split_on CHR ''_'' n
      in if length parts > 1 then last parts else ''alt'')"

text \<open>The copies of the retained prefix keep identifier and name; only the order is
  renumbered from 1.\<close>

definition renumber_initial :: "waypoint list \<Rightarrow> waypoint list" where
  "renumber_initial waypoints_initial =
     map (\<lambda>(i, wp). wp\<lparr>order := i + 1\<rparr>) (enumerate 0 waypoints_initial)"

text \<open>The copies of the suffix get a new identifier each (drawn in list order, starting
  at \<open>u\<close>), a new name and the next orders.\<close>

definition rename_alt :: "nat \<Rightarrow> nat \<Rightarrow> waypoint list \<Rightarrow> waypoint list" where
  "rename_alt next_order u waypoints_alt =
     map (\<lambda>(i, wp). wp\<lparr>wp_id := u + i,
                       name := ''WP'' @ str_nat (next_order + i) @ ''_''
                                 @ route_type_of_name (name wp),
                       order := next_order + i\<rparr>)
       (enumerate 0 waypoints_alt)"

text \<open>
  The closing step. \<open>destination_waypoint\<close> is the copy of the \<^emph>\<open>last waypoint of the
  current route\<close> (\<^verbatim>\<open>copy.deepcopy(current_route.waypoints[-1])\<close>); it is appended, with a new
  identifier, the next order and a new name, unless the assembled list is non-empty and
  ends at the same latitude and longitude.
\<close>

definition ensure_destination ::
    "waypoint \<Rightarrow> waypoint list \<Rightarrow> nat \<Rightarrow> waypoint list \<times> nat" where
  "ensure_destination destination_waypoint combined_waypoints u =
     (let is_destination_included =
            (combined_waypoints \<noteq> []
             \<and> latitude (last combined_waypoints) = latitude destination_waypoint
             \<and> longitude (last combined_waypoints) = longitude destination_waypoint)
      in if is_destination_included then (combined_waypoints, u)
         else
           let new_order = length combined_waypoints + 1;
               new_name =
                 (if combined_waypoints \<noteq> []
                  then ''WP'' @ str_nat new_order @ ''_''
                         @ route_type_of_name (name (last combined_waypoints))
                  else ''WP'' @ str_nat new_order @ ''_dest'')
           in (combined_waypoints
                 @ [destination_waypoint\<lparr>wp_id := u, order := new_order, name := new_name\<rparr>],
               u + 1))"

text \<open>The waypoint list assembled by the two renumbering loops, before the closing
  step, with the identifier counter after it. The fallback for a current position that
  is not found by identifier may raise.\<close>

definition assembled_waypoints ::
    "geometry \<Rightarrow> route \<Rightarrow> waypoint \<Rightarrow> waypoint \<Rightarrow> route \<Rightarrow> int \<Rightarrow> nat
       \<Rightarrow> error + (waypoint list \<times> nat)" where
  "assembled_waypoints g current_route blocked_waypoint current_position alternative_route
       target_index u =
     (case foldl (locate_step (wp_id current_position) (wp_id blocked_waypoint)) (- 1, - 1)
             (enumerate 0 (waypoints current_route)) of
        (found_index, blocked_index) \<Rightarrow>
          case (if found_index = - 1
                then map_sum id fst
                       (closest_loop (geodesic g) current_position (- 1, None)
                          (enumerate 0 (waypoints current_route)))
                else Inr found_index) of
            Inl e \<Rightarrow> Inl e
          | Inr current_pos_index \<Rightarrow>
              let waypoints_initial =
                    py_take (current_pos_index + 1) (waypoints current_route);
                  waypoints_alt =
                    (if blocked_index \<noteq> - 1 \<and> current_pos_index < blocked_index then
                       let alt_waypoints = waypoints alternative_route;
                           join_index = target_index + 2;
                           join_index = (if join_index \<ge> int (length alt_waypoints)
                                         then int (length alt_waypoints) - 1 else join_index)
                       in py_drop join_index alt_waypoints
                     else py_drop (current_pos_index + 1) (waypoints current_route));
                  combined_waypoints = renumber_initial waypoints_initial;
                  next_order = length combined_waypoints + 1;
                  combined_waypoints =
                    combined_waypoints @ rename_alt next_order u waypoints_alt
              in Inr (combined_waypoints, u + length waypoints_alt))"

text \<open>The waypoint list of the spliced route. Reading \<^verbatim>\<open>current_route.waypoints[-1]\<close>
  for the closing step raises on an empty list.\<close>

definition spliced_waypoints ::
    "geometry \<Rightarrow> route \<Rightarrow> waypoint \<Rightarrow> waypoint \<Rightarrow> route \<Rightarrow> int \<Rightarrow> nat
       \<Rightarrow> error + (waypoint list \<times> nat)" where
  "spliced_waypoints g current_route blocked_waypoint current_position alternative_route
       target_index u =
     (case assembled_waypoints g current_route blocked_waypoint current_position
             alternative_route target_index u of
        Inl e \<Rightarrow> Inl e
      | Inr (combined_waypoints, u) \<Rightarrow>
          if waypoints current_route = [] then Inl IndexError
          else Inr (ensure_destination (last (waypoints current_route)) combined_waypoints u))"

text \<open>\<^verbatim>\<open>Route(...)\<close> as the splicer calls the constructor, before the history, the
  weather and the metrics are filled in.\<close>

definition new_rerouted_route ::
    "uuid \<Rightarrow> route \<Rightarrow> route \<Rightarrow> waypoint list \<Rightarrow> route" where
  "new_rerouted_route i current_route alternative_route combined_waypoints =
     \<lparr>route_id = i,
      route_name = ''Rerouted_'' @ route_name current_route,
      origin = origin current_route,
      destination = destination current_route,
      waypoints = combined_waypoints,
      path_type = ''rerouted_'' @ path_type alternative_route,
      optimization_method = ''ppo'',
      distance = 0,
      fitness_score = 0,
      weather_data = [],
      fuel_consumption = 0,
      estimated_time = Some 0,
      leg_distances = [],
      leg_times = [],
      reroute_history = []\<rparr>"

definition create_rerouted_path ::
    "geometry \<Rightarrow> rerouter \<Rightarrow> route \<Rightarrow> waypoint \<Rightarrow> waypoint \<Rightarrow> route \<Rightarrow> waypoint \<Rightarrow> int \<Rightarrow> nat
       \<Rightarrow> error + (route \<times> nat)" where
  "create_rerouted_path g rr current_route blocked_waypoint current_position alternative_route
       target_waypoint target_index u =
     (case spliced_waypoints g current_route blocked_waypoint current_position
             alternative_route target_index u of
        Inl e \<Rightarrow> Inl e
      | Inr (combined_waypoints, u) \<Rightarrow>
          let reroute_record = (name blocked_waypoint, path_type alternative_route);
              rerouted_route =
                new_rerouted_route u current_route alternative_route combined_waypoints;
              u = u + 1;
              rerouted_route =
                rerouted_route\<lparr>reroute_history :=
                  (if reroute_history current_route \<noteq> []
                   then reroute_history current_route @ [reroute_record]
                   else [reroute_record])\<rparr>;
              rerouted_route =
                (if weather_data current_route \<noteq> []
                 then rerouted_route\<lparr>weather_data := weather_data current_route\<rparr>
                 else if weather_data alternative_route \<noteq> []
                 then rerouted_route\<lparr>weather_data := weather_data alternative_route\<rparr>
                 else rerouted_route);
              rerouted_route = snd (calculate_total_distance (calculate_distance g) rerouted_route)
          in case calculate_fitness_score (calculate_distance g) rerouted_route None 0.6 0.4 of
               Inl e \<Rightarrow> Inl e
             | Inr (_, rerouted_route) \<Rightarrow>
                 let rerouted_route =
                       (if truthy_time (estimated_time current_route)
                        then rerouted_route\<lparr>estimated_time := estimated_time current_route\<rparr>
                        else rerouted_route)
                 in if rr_aircraft rr \<noteq> None \<and> weather_data rerouted_route \<noteq> [] then
                      case calculate_fuel_consumption (calculate_bearing g) rerouted_route
                             (rr_aircraft rr) (weather_data rerouted_route) of
                        Inl e \<Rightarrow> Inl e
                      | Inr (fuel_kg, rerouted_route) \<Rightarrow>
                          let rerouted_route = rerouted_route\<lparr>fuel_consumption := fuel_kg\<rparr>
                          in case calculate_estimated_time rerouted_route (rr_aircraft rr) of
                               Inl e \<Rightarrow> Inl e
                             | Inr (flight_time, rerouted_route) \<Rightarrow>
                                 Inr (rerouted_route\<lparr>estimated_time := flight_time\<rparr>, u)
                    else if \<not> truthy_time (estimated_time rerouted_route) then
                      let default_speed = 900;
                          flight_hours = distance rerouted_route / default_speed
                      in Inr (rerouted_route\<lparr>estimated_time := Some (flight_hours + 0.5)\<rparr>, u)
                    else Inr (rerouted_route, u))"

subsection \<open>\<^verbatim>\<open>evaluate_alternatives\<close>\<close>

text \<open>One entry of the list the evaluator returns.\<close>

record candidate =
  cand_route :: route
  target_waypoint :: waypoint
  target_index :: nat
  cand_distance :: real
  score :: real
  fuel_kg :: real
  weather_risk :: real
  rerouted_path :: route

text \<open>The scan for the waypoint of an alternative closest to the current position: a
  later waypoint wins only when strictly closer; \<open>None\<close> when there is no waypoint.\<close>

definition nearest_step ::
    "geo \<Rightarrow> waypoint \<Rightarrow> (waypoint \<times> nat \<times> real) option \<Rightarrow> nat \<times> waypoint
       \<Rightarrow> (waypoint \<times> nat \<times> real) option" where
  "nearest_step cd current_position best p =
     (case p of (i, wp) \<Rightarrow>
        let d = cd (coords current_position) (coords wp)
        in case best of
             None \<Rightarrow> Some (wp, i, d)
           | Some (nearest_wp, nearest_index, min_distance) \<Rightarrow>
               if d < min_distance then Some (wp, i, d) else best)"

definition nearest_waypoint ::
    "geo \<Rightarrow> waypoint \<Rightarrow> waypoint list \<Rightarrow> (waypoint \<times> nat \<times> real) option" where
  "nearest_waypoint cd current_position wps =
     foldl (nearest_step cd current_position) None (enumerate 0 wps)"

text \<open>The test that skips an alternative.\<close>

definition skipped :: "rerouter \<Rightarrow> route \<Rightarrow> bool" where
  "skipped rr alt_route =
     (path_type alt_route \<in> set (used_route_types rr) \<or> path_type alt_route = ''direct'')"

definition weather_risk_step :: "real \<Rightarrow> sample \<Rightarrow> real" where
  "weather_risk_step risk w =
     (let v_velocity = \<bar>dict_get w ''vertical_velocity_250hPa'' 0\<bar>;
          risk = (if v_velocity > 0.5 then risk + v_velocity * 2 else risk);
          visibility = dict_get w ''visibility'' 10000;
          risk = (if visibility < 5000 then risk + (5000 - visibility) / 1000 else risk);
          cloud_cover = dict_get w ''cloud_cover'' 0;
          risk = (if cloud_cover > 80 then risk + (cloud_cover - 80) / 5 else risk)
      in risk)"

text \<open>The body of the loop for an alternative that is not skipped and has a nearest
  waypoint.\<close>

definition score_alternative ::
    "geometry \<Rightarrow> rerouter \<Rightarrow> route \<Rightarrow> waypoint \<Rightarrow> waypoint \<Rightarrow> route
       \<Rightarrow> waypoint \<Rightarrow> nat \<Rightarrow> real \<Rightarrow> nat \<Rightarrow> error + (candidate \<times> nat)" where
  "score_alternative g rr current_route blocked_waypoint current_position alt_route
       nearest_wp nearest_index min_distance u =
     (case create_rerouted_path g rr current_route blocked_waypoint current_position alt_route
             nearest_wp (int nearest_index) u of
        Inl e \<Rightarrow> Inl e
      | Inr (rerouted, u) \<Rightarrow>
          case (case weather_service rr of
                  Some get_weather_for_route \<Rightarrow>
                    if consider_fuel rr \<and> rr_aircraft rr \<noteq> None then
                      case (if weather_data rerouted = [] then
                              case get_weather_for_route rerouted of
                                Inl e \<Rightarrow> Inl e
                              | Inr w \<Rightarrow> Inr (rerouted\<lparr>weather_data := w\<rparr>)
                            else Inr rerouted) of
                        Inl e \<Rightarrow> Inl e
                      | Inr rerouted \<Rightarrow>
                          calculate_fuel_consumption (calculate_bearing g) rerouted
                            (rr_aircraft rr) (weather_data rerouted)
                    else Inr (0, rerouted)
                | None \<Rightarrow> Inr (0, rerouted)) of
            Inl e \<Rightarrow> Inl e
          | Inr (fuel, rerouted) \<Rightarrow>
              let base_score = fitness_score rerouted;
                  risk = (if consider_fuel rr \<and> weather_data rerouted \<noteq> []
                          then foldl weather_risk_step 0 (map snd (weather_data rerouted))
                          else 0);
                  fuel_factor = (if consider_fuel rr then 0.2 else 0);
                  weather_factor = (if consider_fuel rr then 0.1 else 0);
                  total_score = base_score + (fuel * fuel_factor) + (risk * weather_factor)
              in Inr (\<lparr>cand_route = alt_route, target_waypoint = nearest_wp,
                        target_index = nearest_index, cand_distance = min_distance,
                        score = total_score, fuel_kg = fuel, weather_risk = risk,
                        rerouted_path = rerouted\<rparr>, u))"

fun evaluate_loop ::
    "geometry \<Rightarrow> rerouter \<Rightarrow> route \<Rightarrow> waypoint \<Rightarrow> waypoint \<Rightarrow> route list \<Rightarrow> nat
       \<Rightarrow> error + (candidate list \<times> nat)" where
  "evaluate_loop g rr current_route blocked_waypoint current_position [] u = Inr ([], u)"
| "evaluate_loop g rr current_route blocked_waypoint current_position (alt_route # rest) u =
     (if skipped rr alt_route
      then evaluate_loop g rr current_route blocked_waypoint current_position rest u
      else
        case nearest_waypoint (calculate_distance g) current_position (waypoints alt_route) of
          None \<Rightarrow> evaluate_loop g rr current_route blocked_waypoint current_position rest u
        | Some (nearest_wp, nearest_index, min_distance) \<Rightarrow>
            case score_alternative g rr current_route blocked_waypoint current_position
                   alt_route nearest_wp nearest_index min_distance u of
              Inl e \<Rightarrow> Inl e
            | Inr (c, u) \<Rightarrow>
                case evaluate_loop g rr current_route blocked_waypoint current_position rest u of
                  Inl e \<Rightarrow> Inl e
                | Inr (cs, u) \<Rightarrow> Inr (c # cs, u))"

text \<open>The evaluator: the scored alternatives in ascending order of score; Python's sort
  is stable, and so is \<open>sort_key\<close>.\<close>

definition evaluate_alternatives ::
    "geometry \<Rightarrow> rerouter \<Rightarrow> route \<Rightarrow> waypoint \<Rightarrow> waypoint \<Rightarrow> route list \<Rightarrow> nat
       \<Rightarrow> error + (candidate list \<times> nat)" where
  "evaluate_alternatives g rr current_route blocked_waypoint current_position
       alternative_routes u =
     (case evaluate_loop g rr current_route blocked_waypoint current_position
             alternative_routes u of
        Inl e \<Rightarrow> Inl e
      | Inr (scores, u) \<Rightarrow> Inr (sort_key score scores, u))"

subsection \<open>\<^verbatim>\<open>reroute\<close>\<close>

text \<open>The used path types at the start of a reroute: the path type of the current route
  when its history is empty, the path types of the history otherwise.\<close>

definition derive_used_route_types :: "route \<Rightarrow> string list" where
  "derive_used_route_types current_route =
     (if reroute_history current_route = [] then [path_type current_route]
      else map snd (reroute_history current_route))"

text \<open>\<^verbatim>\<open>xs.index(v)\<close>: the first position whose element equals \<open>v\<close>, or \<open>None\<close> for the
  \<^verbatim>\<open>ValueError\<close>. The equality of waypoints belongs to the waypoint class, whose module is
  not at hand; it is the parameter \<open>wp_eq\<close> of \<open>reroute\<close>.\<close>

fun list_index :: "('a \<Rightarrow> bool) \<Rightarrow> 'a list \<Rightarrow> nat option" where
  "list_index P [] = None"
| "list_index P (x # xs) = (if P x then Some 0 else map_option Suc (list_index P xs))"

text \<open>The targets of the branch without weather and fuel.\<close>

fun reroute_targets ::
    "geo \<Rightarrow> rerouter \<Rightarrow> waypoint \<Rightarrow> route list \<Rightarrow> (route \<times> waypoint \<times> nat \<times> real) list" where
  "reroute_targets cd rr current_position [] = []"
| "reroute_targets cd rr current_position (alt_route # rest) =
     (if skipped rr alt_route then reroute_targets cd rr current_position rest
      else case nearest_waypoint cd current_position (waypoints alt_route) of
             None \<Rightarrow> reroute_targets cd rr current_position rest
           | Some (nearest_wp, nearest_index, min_distance) \<Rightarrow>
               (alt_route, nearest_wp, nearest_index, min_distance)
                 # reroute_targets cd rr current_position rest)"

text \<open>
  \<open>reroute\<close> returns the new route or \<^verbatim>\<open>None\<close>, together with what it leaves behind: the
  rerouter (its used path types), the current route (the waypoint before the blocked one
  is set to \<open>ACTIVE\<close> in place when it becomes the current position) and the identifier
  counter. When an exception escapes, the model reports the exception only.
\<close>

definition reroute ::
    "geometry \<Rightarrow> (waypoint \<Rightarrow> waypoint \<Rightarrow> bool) \<Rightarrow> rerouter \<Rightarrow> waypoint option \<Rightarrow> route option
       \<Rightarrow> route list \<Rightarrow> waypoint option \<Rightarrow> nat
       \<Rightarrow> error + (route option \<times> rerouter \<times> route option \<times> nat)" where
  "reroute g wp_eq rr blocked current alternative_routes current_position u =
     (case (blocked, current) of
        (Some blocked_waypoint, Some current_route) \<Rightarrow>
          if alternative_routes = [] then Inr (None, rr, current, u)
          else
            let rr = rr\<lparr>used_route_types := derive_used_route_types current_route\<rparr>
            in case (case current_position of
                       Some p \<Rightarrow> Some (p, current_route)
                     | None \<Rightarrow>
                         (case list_index (\<lambda>w. wp_eq w blocked_waypoint)
                                 (waypoints current_route) of
                            None \<Rightarrow> None
                          | Some blocked_index \<Rightarrow>
                              if blocked_index > 0 then
                                let p = (waypoints current_route ! (blocked_index - 1))
                                          \<lparr>status := ACTIVE\<rparr>
                                in Some (p, current_route\<lparr>waypoints :=
                                           (waypoints current_route)[blocked_index - 1 := p]\<rparr>)
                              else None)) of
                 None \<Rightarrow> Inr (None, rr, current, u)
               | Some (position, current_route) \<Rightarrow>
                   if consider_fuel rr \<and> weather_service rr \<noteq> None \<and> rr_aircraft rr \<noteq> None
                   then
                     case evaluate_alternatives g rr current_route blocked_waypoint position
                            alternative_routes u of
                       Inl e \<Rightarrow> Inl e
                     | Inr (alternatives, u) \<Rightarrow>
                         (case alternatives of
                            [] \<Rightarrow> Inr (None, rr, Some current_route, u)
                          | best_reroute # _ \<Rightarrow>
                              Inr (Some (rerouted_path best_reroute),
                                   rr\<lparr>used_route_types := used_route_types rr
                                        @ [path_type (cand_route best_reroute)]\<rparr>,
                                   Some current_route, u))
                   else
                     case sort_key (\<lambda>(_, _, _, d). d)
                            (reroute_targets (calculate_distance g) rr position
                               alternative_routes) of
                       [] \<Rightarrow> Inr (None, rr, Some current_route, u)
                     | (best_route, best_waypoint, best_index, _) # _ \<Rightarrow>
                         case create_rerouted_path g rr current_route blocked_waypoint position
                                best_route best_waypoint (int best_index) u of
                           Inl e \<Rightarrow> Inl e
                         | Inr (rerouted_route, u) \<Rightarrow>
                             let rr = rr\<lparr>used_route_types := used_route_types rr
                                           @ [path_type best_route]\<rparr>
                             in if \<not> truthy_time (estimated_time rerouted_route) then
                                  if rr_aircraft rr \<noteq> None then
                                    case calculate_estimated_time rerouted_route (rr_aircraft rr) of
                                      Inl e \<Rightarrow> Inl e
                                    | Inr (t, rerouted_route) \<Rightarrow>
                                        Inr (Some (rerouted_route\<lparr>estimated_time := t\<rparr>), rr,
                                             Some current_route, u)
                                  else
                                    let default_speed = 900;
                                        flight_hours = distance rerouted_route / default_speed
                                    in Inr (Some (rerouted_route
                                                    \<lparr>estimated_time := Some (flight_hours + 0.5)\<rparr>),
                                            rr, Some current_route, u)
                                else Inr (Some rerouted_route, rr, Some current_route, u)
      | _ \<Rightarrow> Inr (None, rr, current, u))"

section \<open>The registry of \<^verbatim>\<open>realtime/route_adjuster.py\<close>\<close>

text \<open>
  The adjuster owns the dictionary of active routes, keyed by the string of the route
  identifier. \<^verbatim>\<open>str()\<close> of an identifier is the decimal rendering of the number that stands
  for it. The route generator and the optimizer are external collaborators: they are the
  parameters \<open>gen\<close> (\<^verbatim>\<open>generate_alternative_routes\<close>, called with the temporary origin, the
  point to rejoin and the excluded areas) and \<open>opt\<close> (\<^verbatim>\<open>get_optimizer(method).optimize\<close>);
  both may fail.
\<close>

record adjuster =
  active_routes :: "string \<rightharpoonup> route"

datatype endpoint = AtWaypoint waypoint | AtAirport "airport option"

type_synonym excluded_area = "(real \<times> real) \<times> real"
type_synonym generator = "airport \<Rightarrow> endpoint \<Rightarrow> excluded_area list \<Rightarrow> error + route list"
type_synonym optimizer = "string \<Rightarrow> route list \<Rightarrow> error + route option"

text \<open>
  Modelled from the spec: the methods \<^verbatim>\<open>mark_as_blocked\<close> and \<^verbatim>\<open>mark_as_active\<close> of the
  waypoint class, whose module is not at hand. The spec has the handler transition the
  waypoint found to BLOCKED and the previous waypoint to ACTIVE; the rerouter does the
  latter by the assignment \<^verbatim>\<open>current_position.status = WaypointStatus.ACTIVE\<close>.
\<close>

definition mark_as_blocked :: "waypoint \<Rightarrow> waypoint" where
  "mark_as_blocked wp = wp\<lparr>status := BLOCKED\<rparr>"

definition mark_as_active :: "waypoint \<Rightarrow> waypoint" where
  "mark_as_active wp = wp\<lparr>status := ACTIVE\<rparr>"

definition register_route :: "adjuster \<Rightarrow> route \<Rightarrow> adjuster" where
  "register_route adj r =
     adj\<lparr>active_routes := (active_routes adj)(str_nat (route_id r) \<mapsto> r)\<rparr>"

text \<open>
  The waypoints of the stored route after the two status changes the handler makes
  before it asks for a bypass. The waypoint objects are those of the stored route, so the
  changes are changes of the registry entry.
\<close>

definition mark_waypoints :: "waypoint list \<Rightarrow> nat \<Rightarrow> waypoint list" where
  "mark_waypoints wps blocked_idx =
     (let wps = wps[blocked_idx := mark_as_blocked (wps ! blocked_idx)]
      in if blocked_idx > 0
         then wps[blocked_idx - 1 := mark_as_active (wps ! (blocked_idx - 1))]
         else wps)"

text \<open>
  The request for a bypass: the anchor coordinates (those of the previous waypoint, or of
  the origin, whose attribute read raises when the origin is \<^verbatim>\<open>None\<close>), the point to
  rejoin, the excluded area around the blocked waypoint, the temporary origin (its code
  takes four characters of a fresh identifier), then the generator and the optimizer
  named by the route.
\<close>

definition bypass_segment ::
    "generator \<Rightarrow> optimizer \<Rightarrow> route \<Rightarrow> nat \<Rightarrow> nat \<Rightarrow> (error + route option) \<times> nat" where
  "bypass_segment gen opt r blocked_idx u =
     (let wps = waypoints r
      in case (if blocked_idx > 0 then
                 Inr (latitude (wps ! (blocked_idx - 1)), longitude (wps ! (blocked_idx - 1)),
                      if blocked_idx + 1 < length wps
                      then AtWaypoint (wps ! (blocked_idx + 1))
                      else AtAirport (destination r))
               else
                 case origin r of
                   None \<Rightarrow> Inl AttributeError
                 | Some a \<Rightarrow>
                     Inr (latitude a, longitude a,
                          if length wps > 1 then AtWaypoint (wps ! 1)
                          else AtAirport (destination r))) of
           Inl e \<Rightarrow> (Inl e, u)
         | Inr (current_lat, current_lon, next_waypoint) \<Rightarrow>
             let excluded =
                   ((latitude (wps ! blocked_idx), longitude (wps ! blocked_idx)), 0.2);
                 temp_origin =
                   \<lparr>name = ''Current Position'', latitude = current_lat,
                    longitude = current_lon, iata_code = ''TMP'' @ take 4 (str_nat u),
                    city = [], country = []\<rparr>;
                 u = u + 1
             in case gen temp_origin next_waypoint [excluded] of
                  Inl e \<Rightarrow> (Inl e, u)
                | Inr new_segment_routes \<Rightarrow> (opt (optimization_method r) new_segment_routes, u))"

text \<open>The new waypoint list: the waypoints before the blocked one, the segment without
  its first and last waypoint, the waypoints after the blocked one.\<close>

definition splice_bypass :: "waypoint list \<Rightarrow> nat \<Rightarrow> waypoint list \<Rightarrow> waypoint list" where
  "splice_bypass wps blocked_idx segment =
     (if blocked_idx > 0 then take blocked_idx wps else [])
     @ (if length segment > 2 then butlast (tl segment) else [])
     @ (if blocked_idx + 1 < length wps then drop (blocked_idx + 1) wps else [])"

text \<open>
  The handler returns its result (a route, \<^verbatim>\<open>None\<close>, or the exception that escapes)
  together with the adjuster and the identifier counter it leaves behind.
\<close>

definition handle_blocked_waypoint ::
    "generator \<Rightarrow> optimizer \<Rightarrow> adjuster \<Rightarrow> string \<Rightarrow> string \<Rightarrow> nat
       \<Rightarrow> (error + route option) \<times> adjuster \<times> nat" where
  "handle_blocked_waypoint gen opt adj rid waypoint_id u =
     (case active_routes adj rid of
        None \<Rightarrow> (Inr None, adj, u)
      | Some r \<Rightarrow>
          case list_index (\<lambda>w. str_nat (wp_id w) = waypoint_id) (waypoints r) of
            None \<Rightarrow> (Inr None, adj, u)
          | Some blocked_idx \<Rightarrow>
              let r = r\<lparr>waypoints := mark_waypoints (waypoints r) blocked_idx\<rparr>;
                  adj = adj\<lparr>active_routes := (active_routes adj)(rid \<mapsto> r)\<rparr>
              in case bypass_segment gen opt r blocked_idx u of
                   (Inl e, u) \<Rightarrow> (Inl e, adj, u)
                 | (Inr None, u) \<Rightarrow> (Inr None, adj, u)
                 | (Inr (Some new_segment), u) \<Rightarrow>
                     if waypoints new_segment = [] then (Inr None, adj, u)
                     else
                       let new_waypoints =
                             splice_bypass (waypoints r) blocked_idx (waypoints new_segment);
                           r = r\<lparr>waypoints := new_waypoints\<rparr>
                       in (Inr (Some r),
                           adj\<lparr>active_routes := (active_routes adj)(rid \<mapsto> r)\<rparr>, u))"

section \<open>Example data\<close>

text \<open>
  Modelled from the spec: \<^verbatim>\<open>calculate_distance\<close>, the great-circle distance between two
  points, which the sources at hand call but do not contain. The haversine formula with
  the mean earth radius in kilometres stands for it in the examples.
\<close>

definition haversine :: geo where
  "haversine p q =
     (case (p, q) of ((lat1, lon1), (lat2, lon2)) \<Rightarrow>
        let dlat = radians (lat2 - lat1);
            dlon = radians (lon2 - lon1);
            a = (sin (dlat / 2))\<^sup>2
                + cos (radians lat1) * cos (radians lat2) * (sin (dlon / 2))\<^sup>2
        in 6371 * (2 * arcsin (sqrt a)))"

definition mk_airport :: "string \<Rightarrow> real \<Rightarrow> real \<Rightarrow> airport" where
  "mk_airport code la lo =
     \<lparr>name = code, latitude = la, longitude = lo, iata_code = code, city = [], country = []\<rparr>"

definition mk_waypoint :: "uuid \<Rightarrow> string \<Rightarrow> real \<Rightarrow> real \<Rightarrow> nat \<Rightarrow> waypoint" where
  "mk_waypoint i n la lo k =
     \<lparr>name = n, latitude = la, longitude = lo, wp_id = i, order = k, status = PENDING\<rparr>"

text \<open>\<^verbatim>\<open>Route(id=i, name=n, origin=a, destination=b, waypoints=ws)\<close> with the defaults of
  the constructor.\<close>

definition mk_route ::
    "uuid \<Rightarrow> string \<Rightarrow> airport option \<Rightarrow> airport option \<Rightarrow> waypoint list \<Rightarrow> route" where
  "mk_route i n a b ws =
     \<lparr>route_id = i, route_name = n, origin = a, destination = b, waypoints = ws,
      path_type = ''direct'', optimization_method = [], distance = 0, fitness_score = 0,
      weather_data = [], fuel_consumption = 0, estimated_time = Some 0,
      leg_distances = [], leg_times = [], reroute_history = []\<rparr>"

definition airport_A :: airport where
  "airport_A = mk_airport ''AAA'' 0 0"

definition airport_B :: airport where
  "airport_B = mk_airport ''BBB'' 0 180"

definition route_no_waypoints :: route where
  "route_no_waypoints = mk_route 1 ''R0'' (Some airport_A) (Some airport_B) []"

definition jet_stopped :: aircraft where
  "jet_stopped = \<lparr>cruise_speed_kmh = 0, fuel_consumption_rate_kg_hr = 3000,
                  fuel_capacity_liters = 80000\<rparr>"

definition route_1800 :: route where
  "route_1800 = (mk_route 2 ''R1800'' (Some airport_A) (Some airport_B) [])
                  \<lparr>distance := 1800, weather_data := [(''waypoint_0'', [(''visibility'', 900)])]\<rparr>"

text \<open>
  Modelled from the spec: \<^verbatim>\<open>calculate_bearing\<close>, the bearing from one point to the next in
  degrees, which the sources at hand call but do not contain. The initial great-circle
  bearing, as \<^verbatim>\<open>average_bearing\<close> computes it, stands for it in the examples.
\<close>

definition bearing_formula :: geo where
  "bearing_formula p q =
     (case (p, q) of ((lat1, lon1), (lat2, lon2)) \<Rightarrow>
        mod360 (degrees (atan2
          (sin (radians (lon2 - lon1)) * cos (radians lat2))
          (cos (radians lat1) * sin (radians lat2)
             - sin (radians lat1) * cos (radians lat2) * cos (radians (lon2 - lon1)))) + 360))"

definition jet :: aircraft where
  "jet = \<lparr>cruise_speed_kmh = 900, fuel_consumption_rate_kg_hr = 3000,
          fuel_capacity_liters = 80000\<rparr>"

definition route_north :: route where
  "route_north = (mk_route 3 ''R2'' (Some airport_A) (Some airport_B)
                    [mk_waypoint 11 ''WP1_direct'' 0 0 1, mk_waypoint 12 ''WP2_direct'' 90 0 2])
                  \<lparr>distance := 1800\<rparr>"

definition wind_sample :: "real \<Rightarrow> real \<Rightarrow> sample" where
  "wind_sample v d = [(''wind_speed_10m'', v), (''wind_direction_10m'', d)]"

definition first_leg_wind :: "real \<Rightarrow> real \<Rightarrow> weather" where
  "first_leg_wind v d = [(''waypoint_0'', wind_sample v d)]"

subsection \<open>Routes, rerouter and registry of the examples\<close>

definition geometry_ex :: geometry where
  "geometry_ex = \<lparr>calculate_distance = haversine, calculate_bearing = bearing_formula,
                   geodesic = haversine\<rparr>"

definition rerouter_plain :: rerouter where
  "rerouter_plain = \<lparr>used_route_types = [], weather_service = None, rr_aircraft = None,
                      consider_fuel = True\<rparr>"

definition W1 :: waypoint where "W1 = mk_waypoint 11 ''WP1_direct'' 0 45 1"
definition W2 :: waypoint where "W2 = mk_waypoint 12 ''WP2_direct'' 0 90 2"
definition W3 :: waypoint where "W3 = mk_waypoint 13 ''WP3_direct'' 0 135 3"
definition L1 :: waypoint where "L1 = mk_waypoint 21 ''WP1_left'' 10 45 1"
definition L2 :: waypoint where "L2 = mk_waypoint 22 ''WP2_left'' 10 90 2"
definition L3 :: waypoint where "L3 = mk_waypoint 23 ''WP3_left'' 10 135 3"

definition route_R1 :: route where
  "route_R1 = mk_route 1 ''R1'' (Some airport_A) (Some airport_B) [W1, W2, W3]"



definition route_left :: route where
  "route_left = (mk_route 2 ''Left'' (Some airport_A) (Some airport_B) [L1, L2, L3])
                  \<lparr>path_type := ''left''\<rparr>"

definition route_rerouted :: route where
  "route_rerouted = route_R1\<lparr>path_type := ''rerouted_left'',
                              reroute_history := [(''WP9_direct'', ''left'')]\<rparr>"

definition candidate_types :: "error + (candidate list \<times> nat) \<Rightarrow> string list option" where
  "candidate_types res =
     (case res of Inl _ \<Rightarrow> None
      | Inr (cs, _) \<Rightarrow> Some (map (\<lambda>c. path_type (cand_route c)) cs))"


definition route_rerouted_left :: route where
  "route_rerouted_left = (mk_route 4 ''Alt'' (Some airport_A) (Some airport_B) [L3])
                           \<lparr>path_type := ''rerouted_left''\<rparr>"

definition S0 :: waypoint where "S0 = mk_waypoint 30 ''WP1_right'' 0 45 1"
definition B1 :: waypoint where "B1 = mk_waypoint 31 ''WP2_right'' 5 90 2"
definition S2 :: waypoint where "S2 = mk_waypoint 32 ''WP3_right'' 0 135 3"

definition route_bypass :: route where
  "route_bypass = (mk_route 9 ''Bypass'' (Some airport_A) (Some airport_B) [S0, B1, S2])
                    \<lparr>path_type := ''right''\<rparr>"

definition gen_ex :: generator where
  "gen_ex temp_origin next_waypoint excluded = Inr [route_bypass]"

definition opt_first :: optimizer where
  "opt_first method routes = Inr (case routes of [] \<Rightarrow> None | x # _ \<Rightarrow> Some x)"

definition opt_none :: optimizer where
  "opt_none method routes = Inr None"

definition adjuster_ex :: adjuster where
  "adjuster_ex = register_route \<lparr>active_routes = Map.empty\<rparr> route_R1"

definition returned_ids :: "(error + route option) \<times> adjuster \<times> nat \<Rightarrow> uuid list option" where
  "returned_ids res =
     (case fst res of Inr (Some r) \<Rightarrow> Some (map wp_id (waypoints r)) | _ \<Rightarrow> None)"

definition stored_statuses :: "adjuster \<Rightarrow> string \<Rightarrow> WaypointStatus list option" where
  "stored_statuses adj rid =
     (case active_routes adj rid of None \<Rightarrow> None
      | Some r \<Rightarrow> Some (map status (waypoints r)))"

definition route_left_twin :: route where
  "route_left_twin = route_left\<lparr>route_id := 6, route_name := ''LeftTwin''\<rparr>"

definition route_via_B :: route where
  "route_via_B = mk_route 7 ''RV'' (Some airport_A) (Some airport_B)
                   [mk_waypoint 15 ''WP1_direct'' 0 180 1]"

definition off_route :: waypoint where
  "off_route = mk_waypoint 40 ''CurrentPosition'' 91 45 0"

section \<open>Properties of the cost model\<close>

text \<open>
  C10. \<^verbatim>\<open>get_current_waypoint\<close> returns the first waypoint, in list order, whose status is
  \<open>ACTIVE\<close>, and \<^verbatim>\<open>None\<close> when there is none; neither the time argument nor the clock
  has any influence on the result.
\<close>

theorem get_current_waypoint_first_active:
  "get_current_waypoint now r t = List.find (\<lambda>wp. status wp = ACTIVE) (waypoints r)
   \<and> get_current_waypoint now r t = get_current_waypoint now' r t'"
proof -
  have "(case filter P xs of [] \<Rightarrow> None | w # _ \<Rightarrow> Some w) = List.find P xs"
    for P and xs :: "waypoint list"
    by (induction xs) auto
  then show ?thesis
    by (simp add: get_current_waypoint_def Let_def)
qed

text \<open>
  C4, as the code has it. On a route without waypoints \<^verbatim>\<open>calculate_total_distance\<close>
  collects no leg at all, whatever origin and destination are: it returns 0 and stores
  the distance 0 and the empty leg list.
\<close>

theorem total_distance_no_waypoints:
  "waypoints r = [] \<Longrightarrow>
     calculate_total_distance cd r = (0, r\<lparr>leg_distances := [], distance := 0\<rparr>)"
  by (simp add: calculate_total_distance_def route_legs_def split: option.splits)

theorem total_distance_no_waypoints_witness:
  "waypoints route_no_waypoints = []
   \<and> calculate_total_distance haversine route_no_waypoints
       = (0, route_no_waypoints\<lparr>leg_distances := [], distance := 0\<rparr>)"
  using total_distance_no_waypoints [of route_no_waypoints haversine]
  by (simp add: route_no_waypoints_def mk_route_def)

text \<open>
  C4, as stated, fails: both airports of the route below are set and lie half the equator
  apart, the route has no waypoint, and the result is 0 with no leg stored.
\<close>

theorem total_distance_fallback_counterexample:
  "origin route_no_waypoints = Some airport_A
   \<and> destination route_no_waypoints = Some airport_B
   \<and> waypoints route_no_waypoints = []
   \<and> haversine (coords airport_A) (coords airport_B) = 6371 * pi
   \<and> fst (calculate_total_distance haversine route_no_waypoints) = 0
   \<and> leg_distances (snd (calculate_total_distance haversine route_no_waypoints)) = []"
  by (simp add: calculate_total_distance_def route_legs_def route_no_waypoints_def
        mk_route_def airport_A_def airport_B_def mk_airport_def coords_def haversine_def
        radians_def)

text \<open>
  C7. With fewer than two weather samples \<^verbatim>\<open>calculate_fitness_score\<close> returns, and stores
  as the score, the distance over 1000, where the distance is recomputed first when the
  stored one is not positive.
\<close>

theorem fitness_fallback:
  assumes "length (weather_data r) < 2"
  shows "calculate_fitness_score cd r aircraft ww dw =
           (let r' = (if distance r \<le> 0 then snd (calculate_total_distance cd r) else r)
            in Inr (distance r' / 1000, r'\<lparr>fitness_score := distance r' / 1000\<rparr>))"
proof -
  have "weather_data (snd (calculate_total_distance cd r)) = weather_data r"
    by (simp add: calculate_total_distance_def Let_def)
  with assms show ?thesis
    by (simp add: calculate_fitness_score_def Let_def)
qed

theorem fitness_fallback_witness:
  "length (weather_data route_1800) < 2
   \<and> calculate_fitness_score haversine route_1800 None 0.6 0.4
       = Inr (9 / 5, route_1800\<lparr>fitness_score := 9 / 5\<rparr>)
   \<and> length (weather_data route_via_B) < 2 \<and> distance route_via_B \<le> 0
   \<and> calculate_fitness_score haversine route_via_B None 0.6 0.4
       = Inr (6371 * pi / 1000,
              route_via_B\<lparr>leg_distances := [6371 * pi, 0], distance := 6371 * pi,
                            fitness_score := 6371 * pi / 1000\<rparr>)"
proof -
  have h: "haversine (0, 0) (0, 180) = 6371 * pi" "haversine (0, 180) (0, 180) = 0"
    by (simp_all add: haversine_def radians_def)
  have t: "calculate_total_distance haversine route_via_B
             = (6371 * pi, route_via_B\<lparr>leg_distances := [6371 * pi, 0], distance := 6371 * pi\<rparr>)"
    by (simp add: calculate_total_distance_def route_legs_def route_via_B_def mk_route_def
          mk_waypoint_def airport_A_def airport_B_def mk_airport_def coords_def h Let_def)
  have d: "distance route_via_B = 0" "weather_data route_via_B = []"
    by (simp_all add: route_via_B_def mk_route_def)
  show ?thesis
    using fitness_fallback [of route_1800 haversine None "0.6" "0.4"]
      fitness_fallback [of route_via_B haversine None "0.6" "0.4"]
    by (simp add: t d route_1800_def mk_route_def)
qed

text \<open>
  C2. The claim that no cost computation raises is what the neighbouring functions
  implement (\<^verbatim>\<open>calculate_estimated_time\<close> and \<^verbatim>\<open>calculate_leg_times\<close> test the aircraft,
  \<^verbatim>\<open>calculate_leg_times\<close> tests the cruise speed), but \<^verbatim>\<open>calculate_fuel_consumption\<close>
  raises without an aircraft and with a cruise speed of zero, and
  \<^verbatim>\<open>calculate_estimated_time\<close> raises with a cruise speed of zero.
\<close>

theorem cost_model_raises:
  "calculate_fuel_consumption cb route_1800 None [] = Inl AttributeError
   \<and> calculate_fuel_consumption cb route_1800 (Some jet_stopped) [] = Inl ZeroDivisionError
   \<and> calculate_estimated_time route_1800 (Some jet_stopped) = Inl ZeroDivisionError"
  by (simp add: calculate_fuel_consumption_def calculate_estimated_time_def
        route_1800_def mk_route_def jet_stopped_def)

subsection \<open>Wind and fuel\<close>

lemma foldl_le:
  fixes a b :: real
  assumes "\<And>x y j. j \<in> set js \<Longrightarrow> x \<le> y \<Longrightarrow> f x j \<le> g y j" and "a \<le> b"
  shows "foldl f a js \<le> foldl g b js"
  using assms by (induction js arbitrary: a b) auto

lemma fuel_wind_step_eq:
  assumes "j < length wps - 1"
  shows "fuel_wind_step cb wps wd a j =
     (case map_of wd (waypoint_key j) of None \<Rightarrow> a
      | Some w \<Rightarrow> a * (1 - 1 / (real (length wps) - 1))
          + segment_wind_factor (cb (coords (wps ! j)) (coords (wps ! (j + 1))))
              (dict_get w ''wind_speed_10m'' 0) (dict_get w ''wind_direction_10m'' 0)
            * (1 / (real (length wps) - 1)))"
proof -
  have "\<not> int j \<ge> int (length wps) - 1" using assms by linarith
  then show ?thesis by (simp add: fuel_wind_step_def Let_def split: option.splits)
qed

lemma blend_mono:
  fixes a b :: real
  assumes "a \<le> b" "u \<le> v" "1 \<le> n"
  shows "a * (1 - 1 / n) + u * (1 / n) \<le> b * (1 - 1 / n) + v * (1 / n)"
proof -
  have "0 \<le> 1 - 1 / n" "0 \<le> 1 / n" using assms by simp_all
  then show ?thesis using assms by (intro add_mono mult_right_mono) auto
qed

lemma wind_factor_mono:
  assumes leg: "i < length wps - 1"
    and same: "\<forall>j < length wps - 1. j \<noteq> i \<longrightarrow>
                 map_of wd' (waypoint_key j) = map_of wd (waypoint_key j)"
    and s: "map_of wd (waypoint_key i) = Some s"
    and s': "map_of wd' (waypoint_key i) = Some s'"
    and swf: "segment_wind_factor (cb (coords (wps ! i)) (coords (wps ! (i + 1))))
              (dict_get s ''wind_speed_10m'' 0) (dict_get s ''wind_direction_10m'' 0)
           \<le> segment_wind_factor (cb (coords (wps ! i)) (coords (wps ! (i + 1))))
              (dict_get s' ''wind_speed_10m'' 0) (dict_get s' ''wind_direction_10m'' 0)"
  shows "overall_wind_factor cb wps wd \<le> overall_wind_factor cb wps wd'"
proof -
  have n: "1 \<le> real (length wps) - 1" using leg by (simp add: less_diff_conv)
  have step: "fuel_wind_step cb wps wd x j \<le> fuel_wind_step cb wps wd' y j"
    if "j \<in> set [0..<length wps - 1]" "x \<le> y" for x y j
  proof -
    have j: "j < length wps - 1" using that by simp
    show ?thesis
    proof (cases "j = i")
      case True
      have "x * (1 - 1 / (real (length wps) - 1))
              + segment_wind_factor (cb (coords (wps ! i)) (coords (wps ! (i + 1))))
                  (dict_get s ''wind_speed_10m'' 0) (dict_get s ''wind_direction_10m'' 0)
                * (1 / (real (length wps) - 1))
            \<le> y * (1 - 1 / (real (length wps) - 1))
              + segment_wind_factor (cb (coords (wps ! i)) (coords (wps ! (i + 1))))
                  (dict_get s' ''wind_speed_10m'' 0) (dict_get s' ''wind_direction_10m'' 0)
                * (1 / (real (length wps) - 1))"
        by (rule blend_mono [OF that(2) swf n])
      then show ?thesis
        unfolding True fuel_wind_step_eq [OF leg] s s' by (simp only: option.case)
    next
      case False
      with same j have eq: "map_of wd' (waypoint_key j) = map_of wd (waypoint_key j)"
        by blast
      show ?thesis
      proof (cases "map_of wd (waypoint_key j)")
        case None
        then show ?thesis
          unfolding fuel_wind_step_eq [OF j] eq using that(2) by (simp only: option.case)
      next
        case (Some w)
        show ?thesis
          unfolding fuel_wind_step_eq [OF j] eq Some option.case
          by (rule blend_mono [OF that(2) order_refl n])
      qed
    qed
  qed
  have "foldl (fuel_wind_step cb wps wd) 1.0 [0..<length wps - 1]
      \<le> foldl (fuel_wind_step cb wps wd') 1.0 [0..<length wps - 1]"
    by (rule foldl_le) (use step in auto)
  then show ?thesis by (simp add: overall_wind_factor_def)
qed


lemma segment_wind_factor_mono:
  assumes "(wind_angle b d \<le> 90
            \<and> headwind_component v (wind_angle b d) \<le> headwind_component v' (wind_angle b d))
         \<or> (90 < wind_angle b d
            \<and> tailwind_component v' (wind_angle b d) \<le> tailwind_component v (wind_angle b d))"
  shows "segment_wind_factor b v d \<le> segment_wind_factor b v' d"
  using assms by (auto simp: segment_wind_factor_def Let_def max_def)

text \<open>
  C6. Take two weather mappings that give every segment but segment \<open>i\<close> the same sample
  and segment \<open>i\<close> the same wind direction. When the second mapping has, on segment \<open>i\<close>,
  at least the headwind component of the first (wind angle up to 90 degrees) or at most
  its tailwind component (wind angle above 90 degrees), \<^verbatim>\<open>calculate_fuel_consumption\<close>
  returns at least as much fuel for the second as for the first: the fuel does not
  decrease with the headwind and does not increase with the tailwind. The fuel is the
  base fuel times the overall wind factor, halved, and that factor is never below 0.3.
  The aircraft has a cruise speed other than zero (the call raises otherwise) and the
  base fuel, distance over cruise speed times burn rate, is not negative.
\<close>

theorem fuel_monotone_in_wind:
  assumes cruise: "cruise_speed_kmh ac \<noteq> 0"
    and base: "0 \<le> distance r / cruise_speed_kmh ac * fuel_consumption_rate_kg_hr ac"
    and leg: "i < length (waypoints r) - 1"
    and same: "\<forall>j < length (waypoints r) - 1. j \<noteq> i \<longrightarrow>
                 map_of wd' (waypoint_key j) = map_of wd (waypoint_key j)"
    and s: "map_of wd (waypoint_key i) = Some s"
    and s': "map_of wd' (waypoint_key i) = Some s'"
    and dir: "dict_get s' ''wind_direction_10m'' 0 = dict_get s ''wind_direction_10m'' 0"
    and wa: "wa = wind_angle (cb (coords (waypoints r ! i)) (coords (waypoints r ! (i + 1))))
                    (dict_get s ''wind_direction_10m'' 0)"
    and wind: "(wa \<le> 90
                 \<and> headwind_component (dict_get s ''wind_speed_10m'' 0) wa
                   \<le> headwind_component (dict_get s' ''wind_speed_10m'' 0) wa)
             \<or> (90 < wa
                 \<and> tailwind_component (dict_get s' ''wind_speed_10m'' 0) wa
                   \<le> tailwind_component (dict_get s ''wind_speed_10m'' 0) wa)"
  shows "\<exists>f f'. calculate_fuel_consumption cb r (Some ac) wd = Inr (f, r\<lparr>fuel_consumption := f\<rparr>)
           \<and> calculate_fuel_consumption cb r (Some ac) wd' = Inr (f', r\<lparr>fuel_consumption := f'\<rparr>)
           \<and> f \<le> f'
           \<and> f = distance r / cruise_speed_kmh ac * fuel_consumption_rate_kg_hr ac
                   * overall_wind_factor cb (waypoints r) wd / 2
           \<and> f' = distance r / cruise_speed_kmh ac * fuel_consumption_rate_kg_hr ac
                   * overall_wind_factor cb (waypoints r) wd' / 2
           \<and> 0.3 \<le> overall_wind_factor cb (waypoints r) wd
           \<and> 0.3 \<le> overall_wind_factor cb (waypoints r) wd'"
proof -
  let ?b = "cb (coords (waypoints r ! i)) (coords (waypoints r ! (i + 1)))"
  have "segment_wind_factor ?b (dict_get s ''wind_speed_10m'' 0) (dict_get s ''wind_direction_10m'' 0)
      \<le> segment_wind_factor ?b (dict_get s' ''wind_speed_10m'' 0) (dict_get s ''wind_direction_10m'' 0)"
    by (rule segment_wind_factor_mono) (use wind wa in simp)
  then have "overall_wind_factor cb (waypoints r) wd \<le> overall_wind_factor cb (waypoints r) wd'"
    using wind_factor_mono [OF leg same s s', of cb] dir by simp
  then have le: "distance r / cruise_speed_kmh ac * fuel_consumption_rate_kg_hr ac
                   * overall_wind_factor cb (waypoints r) wd / 2
               \<le> distance r / cruise_speed_kmh ac * fuel_consumption_rate_kg_hr ac
                   * overall_wind_factor cb (waypoints r) wd' / 2"
    by (intro divide_right_mono mult_left_mono base) simp_all
  have floor: "0.3 \<le> overall_wind_factor cb (waypoints r) w" for w
    by (simp add: overall_wind_factor_def)
  show ?thesis
    using cruise le floor by (simp add: calculate_fuel_consumption_def Let_def)
qed

lemma bearing_due_north: "bearing_formula (0, 0) (90, 0) = 0"
  by (simp add: bearing_formula_def radians_def degrees_def atan2_def mod360_def)

lemma waypoint_key_zero: "waypoint_key 0 = ''waypoint_0''"
  by (simp add: waypoint_key_def str_nat.simps digit_char_def)

lemma wind_angle_zero: "wind_angle 0 0 = 0" and wind_angle_opposite: "wind_angle 0 180 = 180"
  by (simp_all add: wind_angle_def mod360_def)

theorem fuel_monotone_in_wind_witness:
  "calculate_fuel_consumption bearing_formula route_north (Some jet) (first_leg_wind 5 0)
     = Inr (3300, route_north\<lparr>fuel_consumption := 3300\<rparr>)
   \<and> calculate_fuel_consumption bearing_formula route_north (Some jet) (first_leg_wind 10 0)
     = Inr (3600, route_north\<lparr>fuel_consumption := 3600\<rparr>)
   \<and> calculate_fuel_consumption bearing_formula route_north (Some jet) (first_leg_wind 20 180)
     = Inr (2100, route_north\<lparr>fuel_consumption := 2100\<rparr>)
   \<and> calculate_fuel_consumption bearing_formula route_north (Some jet) (first_leg_wind 10 180)
     = Inr (2550, route_north\<lparr>fuel_consumption := 2550\<rparr>)"
proof -
  have w: "waypoints route_north
             = [mk_waypoint 11 ''WP1_direct'' 0 0 1, mk_waypoint 12 ''WP2_direct'' 90 0 2]"
    and d: "distance route_north = 1800"
    by (simp_all add: route_north_def mk_route_def)
  have b: "bearing_formula (coords (waypoints route_north ! 0))
             (coords (waypoints route_north ! (0 + 1))) = 0"
    by (simp add: w mk_waypoint_def coords_def bearing_due_north)
  have ow: "overall_wind_factor bearing_formula (waypoints route_north) (first_leg_wind v 0)
              = max 0.3 (1 + 0.02 * v)"
    and ow': "overall_wind_factor bearing_formula (waypoints route_north) (first_leg_wind v 180)
              = max 0.3 (max 0.5 (1 - 0.015 * v))" for v
    by (simp_all add: w overall_wind_factor_def fuel_wind_step_def mk_waypoint_def coords_def
          bearing_due_north waypoint_key_zero wind_angle_zero wind_angle_opposite
          first_leg_wind_def wind_sample_def dict_get_def segment_wind_factor_def
          headwind_component_def tailwind_component_def radians_def Let_def)
  have h1: "cruise_speed_kmh jet \<noteq> 0"
    and h2: "0 \<le> distance route_north / cruise_speed_kmh jet * fuel_consumption_rate_kg_hr jet"
    and h3: "0 < length (waypoints route_north) - 1"
    and h4: "\<forall>j < length (waypoints route_north) - 1. j \<noteq> 0 \<longrightarrow>
               map_of (first_leg_wind v' d') (waypoint_key j)
                 = map_of (first_leg_wind v d) (waypoint_key j)"
    and h5: "map_of (first_leg_wind v d) (waypoint_key 0) = Some (wind_sample v d)"
    and h7: "dict_get (wind_sample v' d) ''wind_direction_10m'' 0
               = dict_get (wind_sample v d) ''wind_direction_10m'' 0"
    for v v' d d'
    by (simp_all add: d w jet_def waypoint_key_zero first_leg_wind_def wind_sample_def
          dict_get_def)
  have head: "0 = wind_angle (bearing_formula (coords (waypoints route_north ! 0))
                                (coords (waypoints route_north ! (0 + 1))))
                    (dict_get (wind_sample 5 0) ''wind_direction_10m'' 0)"
    and tail: "180 = wind_angle (bearing_formula (coords (waypoints route_north ! 0))
                                   (coords (waypoints route_north ! (0 + 1))))
                       (dict_get (wind_sample 20 180) ''wind_direction_10m'' 0)"
    unfolding b by (simp_all add: wind_sample_def dict_get_def wind_angle_zero wind_angle_opposite)
  have more_head: "(0 \<le> (90::real)
                \<and> headwind_component (dict_get (wind_sample 5 0) ''wind_speed_10m'' 0) 0
                  \<le> headwind_component (dict_get (wind_sample 10 0) ''wind_speed_10m'' 0) 0)
             \<or> ((90::real) < 0
                \<and> tailwind_component (dict_get (wind_sample 10 0) ''wind_speed_10m'' 0) 0
                  \<le> tailwind_component (dict_get (wind_sample 5 0) ''wind_speed_10m'' 0) 0)"
    and less_tail: "(180 \<le> (90::real)
                \<and> headwind_component (dict_get (wind_sample 20 180) ''wind_speed_10m'' 0) 180
                  \<le> headwind_component (dict_get (wind_sample 10 180) ''wind_speed_10m'' 0) 180)
             \<or> ((90::real) < 180
                \<and> tailwind_component (dict_get (wind_sample 10 180) ''wind_speed_10m'' 0) 180
                  \<le> tailwind_component (dict_get (wind_sample 20 180) ''wind_speed_10m'' 0) 180)"
    by (simp_all add: wind_sample_def dict_get_def headwind_component_def
          tailwind_component_def radians_def)
  from fuel_monotone_in_wind [where cb = bearing_formula and wa = 0 and i = 0,
         OF h1 h2 h3 h4 h5 h5 h7 head more_head]
       fuel_monotone_in_wind [where cb = bearing_formula and wa = 180 and i = 0,
         OF h1 h2 h3 h4 h5 h5 h7 tail less_tail]
  show ?thesis
    by (auto simp: ow ow' d jet_def)
qed

section \<open>Properties of the rerouter\<close>

lemma str_nat_digit [simp]: "n < 10 \<Longrightarrow> str_nat n = [digit_char n]"
  by (simp add: str_nat.simps)

lemma list_index_None: "list_index P xs = None \<longleftrightarrow> (\<forall>x \<in> set xs. \<not> P x)"
  by (induction xs) auto

lemma list_index_first: "xs \<noteq> [] \<Longrightarrow> P (hd xs) \<Longrightarrow> list_index P xs = Some 0"
  by (cases xs) auto

text \<open>
  C9. \<^verbatim>\<open>reroute\<close>, called with a blocked waypoint, a current route, a non-empty list of
  alternatives and no current position, returns \<^verbatim>\<open>None\<close> when the blocked waypoint is the
  first waypoint of the current route or is not in its waypoint list. No rerouted path is
  built: no identifier is drawn and the current route is as before; the rerouter has only
  reset its used path types.
\<close>

theorem reroute_first_or_absent:
  assumes "alternative_routes \<noteq> []"
    and "(waypoints cur \<noteq> [] \<and> wp_eq (hd (waypoints cur)) b)
         \<or> (\<forall>w \<in> set (waypoints cur). \<not> wp_eq w b)"
  shows "reroute g wp_eq rr (Some b) (Some cur) alternative_routes None u
           = Inr (None, rr\<lparr>used_route_types := derive_used_route_types cur\<rparr>, Some cur, u)"
proof -
  from assms(2) have "list_index (\<lambda>w. wp_eq w b) (waypoints cur) = Some 0
      \<or> list_index (\<lambda>w. wp_eq w b) (waypoints cur) = None"
    by (auto simp: list_index_None list_index_first)
  then show ?thesis
    using assms(1) by (auto simp: reroute_def Let_def)
qed

theorem reroute_first_or_absent_witness:
  "[route_left] \<noteq> []
   \<and> waypoints route_R1 \<noteq> [] \<and> hd (waypoints route_R1) = W1
   \<and> reroute geometry_ex (=) rerouter_plain (Some W1) (Some route_R1) [route_left] None 100
       = Inr (None, rerouter_plain\<lparr>used_route_types := [''direct'']\<rparr>, Some route_R1, 100)"
  using reroute_first_or_absent [of "[route_left]" route_R1 "(=)" W1 geometry_ex rerouter_plain 100]
  by (simp add: route_R1_def mk_route_def derive_used_route_types_def)

lemma evaluate_loop_filter:
  "evaluate_loop g rr cur b pos alts u
     = evaluate_loop g rr cur b pos (filter (\<lambda>a. \<not> skipped rr a) alts) u"
proof (induction alts arbitrary: u)
  case Nil
  show ?case by simp
next
  case (Cons a alts)
  show ?case
  proof (cases "skipped rr a")
    case True
    then show ?thesis using Cons.IH by simp
  next
    case False
    then show ?thesis using Cons.IH
      by (simp split: option.splits sum.splits prod.splits)
  qed
qed

text \<open>
  C5, as the code has it. The evaluator ignores every alternative whose path type is in
  the rerouter's used path types or is \<^verbatim>\<open>"direct"\<close>: its result is the one for the list
  without them. \<^verbatim>\<open>reroute\<close> sets the used path types to the path type of the current
  route when the reroute history is empty, and to the path types of the history
  otherwise. So for a current route with an empty history, a single alternative of the
  current route's path type leaves the evaluator with no candidate, and \<^verbatim>\<open>reroute\<close>
  returns \<^verbatim>\<open>None\<close>.
\<close>

theorem evaluator_discards_used:
  "evaluate_alternatives g rr cur b pos alts u
     = evaluate_alternatives g rr cur b pos
         (filter (\<lambda>a. path_type a \<notin> set (used_route_types rr) \<and> path_type a \<noteq> ''direct'')
            alts) u
   \<and> (reroute_history cur = [] \<and> path_type alt = path_type cur \<longrightarrow>
        evaluate_alternatives g (rr\<lparr>used_route_types := derive_used_route_types cur\<rparr>)
          cur b pos [alt] u = Inr ([], u)
        \<and> reroute g wp_eq rr (Some b) (Some cur) [alt] (Some pos) u
            = Inr (None, rr\<lparr>used_route_types := derive_used_route_types cur\<rparr>, Some cur, u))"
proof -
  have "(\<lambda>a. path_type a \<notin> set (used_route_types rr) \<and> path_type a \<noteq> ''direct'')
          = (\<lambda>a. \<not> skipped rr a)"
    by (auto simp: skipped_def)
  then have 1: "evaluate_alternatives g rr cur b pos alts u
     = evaluate_alternatives g rr cur b pos
         (filter (\<lambda>a. path_type a \<notin> set (used_route_types rr) \<and> path_type a \<noteq> ''direct'')
            alts) u"
    using evaluate_loop_filter [of g rr cur b pos alts u]
    by (simp add: evaluate_alternatives_def)
  have 2: "evaluate_alternatives g (rr\<lparr>used_route_types := derive_used_route_types cur\<rparr>)
          cur b pos [alt] u = Inr ([], u)"
     and 3: "reroute g wp_eq rr (Some b) (Some cur) [alt] (Some pos) u
            = Inr (None, rr\<lparr>used_route_types := derive_used_route_types cur\<rparr>, Some cur, u)"
    if "reroute_history cur = []" "path_type alt = path_type cur"
  proof -
    have sk: "skipped (rr\<lparr>used_route_types := derive_used_route_types cur\<rparr>) alt"
      using that by (simp add: skipped_def derive_used_route_types_def)
    then show 2: "evaluate_alternatives g (rr\<lparr>used_route_types := derive_used_route_types cur\<rparr>)
          cur b pos [alt] u = Inr ([], u)"
      by (simp add: evaluate_alternatives_def)
    show "reroute g wp_eq rr (Some b) (Some cur) [alt] (Some pos) u
            = Inr (None, rr\<lparr>used_route_types := derive_used_route_types cur\<rparr>, Some cur, u)"
      using sk 2 by (simp add: reroute_def Let_def)
  qed
  from 1 2 3 show ?thesis by blast
qed

theorem evaluator_discards_used_witness:
  "reroute_history route_left = [] \<and> path_type route_left_twin = path_type route_left
   \<and> path_type route_left_twin \<noteq> ''direct''
   \<and> evaluate_alternatives geometry_ex (rerouter_plain\<lparr>used_route_types := [''left'', ''right'']\<rparr>)
        route_left L2 L1 [route_left_twin, route_bypass] 100 = Inr ([], 100)
   \<and> evaluate_alternatives geometry_ex
        (rerouter_plain\<lparr>used_route_types := derive_used_route_types route_left\<rparr>)
        route_left L2 L1 [route_left_twin] 100 = Inr ([], 100)
   \<and> reroute geometry_ex (=) rerouter_plain (Some L2) (Some route_left) [route_left_twin] (Some L1) 100
        = Inr (None, rerouter_plain\<lparr>used_route_types := [''left'']\<rparr>, Some route_left, 100)"
  using evaluator_discards_used [of geometry_ex
           "rerouter_plain\<lparr>used_route_types := [''left'', ''right'']\<rparr>" route_left L2 L1
           "[route_left_twin, route_bypass]" 100 route_left_twin "(=)"]
        evaluator_discards_used [of geometry_ex rerouter_plain route_left L2 L1 "[]" 100
           route_left_twin "(=)"]
  by (simp add: route_left_def route_left_twin_def route_bypass_def mk_route_def
        derive_used_route_types_def evaluate_alternatives_def)

subsection \<open>The spliced route\<close>

lemma ground_speed_term_ge: "450 \<le> ground_speed_term h node"
  by (simp add: ground_speed_term_def Let_def)

lemma foldl_ground_speed_ge:
  "a + 450 * real (length nodes)
     \<le> foldl (\<lambda>acc node. acc + ground_speed_term h node) a nodes"
proof (induction nodes arbitrary: a)
  case Nil
  show ?case by simp
next
  case (Cons n nodes)
  have "a + 450 * real (length (n # nodes))
          \<le> (a + ground_speed_term h n) + 450 * real (length nodes)"
    using ground_speed_term_ge [of h n] by (simp add: algebra_simps)
  also have "\<dots> \<le> foldl (\<lambda>acc node. acc + ground_speed_term h node)
                      (a + ground_speed_term h n) nodes"
    by (rule Cons.IH)
  finally show ?case by simp
qed

lemma avg_ground_speed_pos:
  assumes "nodes \<noteq> []"
  shows "0 < avg_ground_speed h nodes"
proof -
  have "0 < real (length nodes)" using assms by simp
  moreover have "450 * real (length nodes)
      \<le> foldl (\<lambda>acc node. acc + ground_speed_term h node) 0 nodes"
    using foldl_ground_speed_ge [of 0 nodes h] by simp
  ultimately have "0 < foldl (\<lambda>acc node. acc + ground_speed_term h node) 0 nodes"
    by (smt (verit) mult_pos_pos)
  then show ?thesis using assms by (simp add: avg_ground_speed_def)
qed

lemma fitness_default_case:
  "case calculate_fitness_score cd r None ww dw of
     Inl e \<Rightarrow> False
   | Inr (x, r') \<Rightarrow> waypoints r' = waypoints r \<and> destination r' = destination r"
proof -
  define r1 where "r1 = (if distance r \<le> 0 then snd (calculate_total_distance cd r) else r)"
  have keep: "waypoints r1 = waypoints r" "destination r1 = destination r"
    by (simp_all add: r1_def calculate_total_distance_def Let_def)
  have pos: "0 < avg_ground_speed h (map snd (weather_data r1))" if "weather_data r1 \<noteq> []" for h
    using that by (intro avg_ground_speed_pos) simp
  show ?thesis
    unfolding calculate_fitness_score_def r1_def [symmetric] Let_def
    using keep pos by (simp add: Let_def)
qed

lemma fitness_default_total:
  "\<exists>x r'. calculate_fitness_score cd r None ww dw = Inr (x, r')
      \<and> waypoints r' = waypoints r \<and> destination r' = destination r"
  using fitness_default_case [where cd = cd and r = r and ww = ww and dw = dw]
  by (cases "calculate_fitness_score cd r None ww dw") auto

lemma fuel_total:
  "cruise_speed_kmh ac \<noteq> 0 \<Longrightarrow>
   \<exists>f. calculate_fuel_consumption cb r (Some ac) wd = Inr (f, r\<lparr>fuel_consumption := f\<rparr>)"
  by (simp add: calculate_fuel_consumption_def Let_def)

lemma estimated_time_case:
  "cruise_speed_kmh ac \<noteq> 0 \<Longrightarrow>
   case calculate_estimated_time r (Some ac) of
     Inl e \<Rightarrow> False
   | Inr (t, r') \<Rightarrow> waypoints r' = waypoints r \<and> destination r' = destination r"
  by (simp add: calculate_estimated_time_def Let_def split: prod.splits)









lemma create_rerouted_path_after_splice:
  assumes sp: "spliced_waypoints g cur b pos alt ti u = Inr (ws', k')"
  shows "\<exists>r4. waypoints r4 = ws' \<and> destination r4 = destination cur
     \<and> create_rerouted_path g rr cur b pos alt tw ti u =
     (if rr_aircraft rr \<noteq> None \<and> weather_data r4 \<noteq> [] then
        case calculate_fuel_consumption (calculate_bearing g) r4 (rr_aircraft rr) (weather_data r4) of
          Inl e \<Rightarrow> Inl e
        | Inr (fk, rerouted_route) \<Rightarrow>
            (case calculate_estimated_time (rerouted_route\<lparr>fuel_consumption := fk\<rparr>)
                    (rr_aircraft rr) of
               Inl e \<Rightarrow> Inl e
             | Inr (flight_time, rerouted_route) \<Rightarrow>
                 Inr (rerouted_route\<lparr>estimated_time := flight_time\<rparr>, k' + 1))
      else if \<not> truthy_time (estimated_time r4) then
        Inr (r4\<lparr>estimated_time := Some (distance r4 / 900 + 0.5)\<rparr>, k' + 1)
      else Inr (r4, k' + 1))"
proof -
  define r0 where "r0 = (new_rerouted_route k' cur alt ws')
      \<lparr>reroute_history := (if reroute_history cur \<noteq> []
                            then reroute_history cur @ [(name b, path_type alt)]
                            else [(name b, path_type alt)])\<rparr>"
  define r1 where "r1 = (if weather_data cur \<noteq> [] then r0\<lparr>weather_data := weather_data cur\<rparr>
                         else if weather_data alt \<noteq> [] then r0\<lparr>weather_data := weather_data alt\<rparr>
                         else r0)"
  define r2 where "r2 = snd (calculate_total_distance (calculate_distance g) r1)"
  have r2: "waypoints r2 = ws'" "destination r2 = destination cur"
    by (simp_all add: r2_def r1_def r0_def new_rerouted_route_def calculate_total_distance_def Let_def)
  obtain x r3 where fit: "calculate_fitness_score (calculate_distance g) r2 None 0.6 0.4 = Inr (x, r3)"
    and r3: "waypoints r3 = ws'" "destination r3 = destination cur"
    using fitness_default_total [where cd = "calculate_distance g" and r = r2 and ww = "0.6" and dw = "0.4"] r2 by auto
  define r4 where "r4 = (if truthy_time (estimated_time cur)
                         then r3\<lparr>estimated_time := estimated_time cur\<rparr> else r3)"
  have r4: "waypoints r4 = ws'" "destination r4 = destination cur"
    using r3 by (simp_all add: r4_def)
  have "create_rerouted_path g rr cur b pos alt tw ti u =
     (if rr_aircraft rr \<noteq> None \<and> weather_data r4 \<noteq> [] then
        case calculate_fuel_consumption (calculate_bearing g) r4 (rr_aircraft rr) (weather_data r4) of
          Inl e \<Rightarrow> Inl e
        | Inr (fk, rerouted_route) \<Rightarrow>
            (case calculate_estimated_time (rerouted_route\<lparr>fuel_consumption := fk\<rparr>)
                    (rr_aircraft rr) of
               Inl e \<Rightarrow> Inl e
             | Inr (flight_time, rerouted_route) \<Rightarrow>
                 Inr (rerouted_route\<lparr>estimated_time := flight_time\<rparr>, k' + 1))
      else if \<not> truthy_time (estimated_time r4) then
        Inr (r4\<lparr>estimated_time := Some (distance r4 / 900 + 0.5)\<rparr>, k' + 1)
      else Inr (r4, k' + 1))"
    unfolding create_rerouted_path_def sp Let_def sum.case prod.case
    unfolding r0_def [symmetric] r1_def [symmetric] r2_def [symmetric]
    unfolding fit sum.case prod.case r4_def [symmetric]
    by (rule refl)
  with r4 show ?thesis by blast
qed








lemma locate_step_found:
  assumes "0 \<le> fst acc \<or> (\<exists>p \<in> set ps. wp_id (snd p) = pid)"
  shows "0 \<le> fst (foldl (locate_step pid bid) acc ps)"
  using assms
proof (induction ps arbitrary: acc)
  case Nil
  then show ?case by simp
next
  case (Cons p ps)
  obtain c d where acc: "acc = (c, d)" by (cases acc)
  obtain i w where p: "p = (i, w)" by (cases p)
  have "0 \<le> fst (locate_step pid bid acc p) \<or> (\<exists>q \<in> set ps. wp_id (snd q) = pid)"
    using Cons.prems by (auto simp: locate_step_def acc p)
  then show ?case using Cons.IH by simp
qed

lemma closest_loop_total:
  assumes "\<bar>latitude pos\<bar> \<le> 90" and "\<forall>p \<in> set ps. \<bar>latitude (snd p)\<bar> \<le> 90"
  shows "\<exists>res. closest_loop gd pos acc ps = Inr res"
  using assms(2)
proof (induction ps arbitrary: acc)
  case Nil
  show ?case by simp
next
  case (Cons p ps)
  obtain c m where acc: "acc = (c, m)" by (cases acc)
  obtain i w where p: "p = (i, w)" by (cases p)
  from Cons.prems have "\<bar>latitude w\<bar> \<le> 90" by (simp add: p)
  with assms(1) have "\<exists>acc'. closest_step gd pos acc p = Inr acc'"
    by (cases m) (simp_all add: closest_step_def geodesic_kilometers_def coords_def acc p)
  then obtain acc' where "closest_step gd pos acc p = Inr acc'" ..
  moreover from Cons.prems have "\<forall>q \<in> set ps. \<bar>latitude (snd q)\<bar> \<le> 90" by simp
  ultimately show ?case using Cons.IH by simp
qed

lemma set_enumerate_snd: "p \<in> set (enumerate n xs) \<Longrightarrow> snd p \<in> set xs"
  by (metis in_set_zipE enumerate_eq_zip prod.collapse)

lemma assembled_waypoints_total:
  assumes "(\<exists>w \<in> set (waypoints cur). wp_id w = wp_id pos)
           \<or> (\<bar>latitude pos\<bar> \<le> 90 \<and> (\<forall>w \<in> set (waypoints cur). \<bar>latitude w\<bar> \<le> 90))"
  shows "\<exists>ws k. assembled_waypoints g cur b pos alt ti u = Inr (ws, k)"
proof -
  obtain fi bi where loc: "foldl (locate_step (wp_id pos) (wp_id b)) (- 1, - 1)
                              (enumerate 0 (waypoints cur)) = (fi, bi)"
    by (cases "foldl (locate_step (wp_id pos) (wp_id b)) (- 1, - 1) (enumerate 0 (waypoints cur))")
  have "\<exists>i. (if fi = - 1
              then map_sum id fst (closest_loop (geodesic g) pos (- 1, None)
                                     (enumerate 0 (waypoints cur)))
              else Inr fi) = Inr i"
  proof (cases "fi = - 1")
    case False
    then show ?thesis by simp
  next
    case True
    have "\<not> (\<exists>w \<in> set (waypoints cur). wp_id w = wp_id pos)"
    proof
      assume "\<exists>w \<in> set (waypoints cur). wp_id w = wp_id pos"
      then obtain w where "w \<in> set (waypoints cur)" "wp_id w = wp_id pos" by blast
      then obtain p where "p \<in> set (enumerate 0 (waypoints cur))" "wp_id (snd p) = wp_id pos"
        by (metis in_set_conv_nth length_enumerate nth_enumerate_eq snd_conv)
      then have "0 \<le> fst (foldl (locate_step (wp_id pos) (wp_id b)) (- 1, - 1)
                             (enumerate 0 (waypoints cur)))"
        by (intro locate_step_found) blast
      with loc True show False by simp
    qed
    with assms have v: "\<bar>latitude pos\<bar> \<le> 90" "\<forall>w \<in> set (waypoints cur). \<bar>latitude w\<bar> \<le> 90"
      by blast+
    then have "\<forall>p \<in> set (enumerate 0 (waypoints cur)). \<bar>latitude (snd p)\<bar> \<le> 90"
      using set_enumerate_snd by blast
    from closest_loop_total [OF v(1) this]
    obtain res where "closest_loop (geodesic g) pos (- 1, None) (enumerate 0 (waypoints cur)) = Inr res"
      by blast
    with True show ?thesis by simp
  qed
  then obtain i where i: "(if fi = - 1
              then map_sum id fst (closest_loop (geodesic g) pos (- 1, None)
                                     (enumerate 0 (waypoints cur)))
              else Inr fi) = Inr i" ..
  show ?thesis
    unfolding assembled_waypoints_def loc prod.case i sum.case Let_def by blast
qed

lemma create_rerouted_path_total:
  assumes ne: "waypoints cur \<noteq> []"
    and ac: "\<forall>ac. rr_aircraft rr = Some ac \<longrightarrow> cruise_speed_kmh ac \<noteq> 0"
    and loc: "(\<exists>w \<in> set (waypoints cur). wp_id w = wp_id pos)
           \<or> (\<bar>latitude pos\<bar> \<le> 90 \<and> (\<forall>w \<in> set (waypoints cur). \<bar>latitude w\<bar> \<le> 90))"
  shows "\<exists>r' u'. create_rerouted_path g rr cur b pos alt tw ti u = Inr (r', u')"
proof -
  from assembled_waypoints_total [OF loc]
  obtain ws k where asm: "assembled_waypoints g cur b pos alt ti u = Inr (ws, k)" by blast
  obtain ws' k' where ens: "ensure_destination (last (waypoints cur)) ws k = (ws', k')"
    by (cases "ensure_destination (last (waypoints cur)) ws k")
  have sp: "spliced_waypoints g cur b pos alt ti u = Inr (ws', k')"
    using ne asm ens by (simp add: spliced_waypoints_def)
  from create_rerouted_path_after_splice [OF sp, of rr tw]
  obtain r4 where eq: "create_rerouted_path g rr cur b pos alt tw ti u =
     (if rr_aircraft rr \<noteq> None \<and> weather_data r4 \<noteq> [] then
        case calculate_fuel_consumption (calculate_bearing g) r4 (rr_aircraft rr) (weather_data r4) of
          Inl e \<Rightarrow> Inl e
        | Inr (fk, rerouted_route) \<Rightarrow>
            (case calculate_estimated_time (rerouted_route\<lparr>fuel_consumption := fk\<rparr>)
                    (rr_aircraft rr) of
               Inl e \<Rightarrow> Inl e
             | Inr (flight_time, rerouted_route) \<Rightarrow>
                 Inr (rerouted_route\<lparr>estimated_time := flight_time\<rparr>, k' + 1))
      else if \<not> truthy_time (estimated_time r4) then
        Inr (r4\<lparr>estimated_time := Some (distance r4 / 900 + 0.5)\<rparr>, k' + 1)
      else Inr (r4, k' + 1))"
    by blast
  show ?thesis
  proof (cases "rr_aircraft rr \<noteq> None \<and> weather_data r4 \<noteq> []")
    case True
    then obtain a where a: "rr_aircraft rr = Some a" by auto
    with ac have c: "cruise_speed_kmh a \<noteq> 0" by simp
    obtain f where f: "calculate_fuel_consumption (calculate_bearing g) r4 (Some a) (weather_data r4)
                         = Inr (f, r4\<lparr>fuel_consumption := f\<rparr>)"
      using fuel_total [OF c] by blast
    from estimated_time_case [OF c, where r = "r4\<lparr>fuel_consumption := f\<rparr>"]
    obtain t r6 where t: "calculate_estimated_time (r4\<lparr>fuel_consumption := f\<rparr>) (Some a) = Inr (t, r6)"
      by (cases "calculate_estimated_time (r4\<lparr>fuel_consumption := f\<rparr>) (Some a)") auto
    show ?thesis
      using True a f t by (simp add: eq)
  next
    case False
    then show ?thesis by (auto simp: eq)
  qed
qed


text \<open>The fallback by coordinates raises for a current position that is not a waypoint
  of the route and has a latitude out of range.\<close>

lemma fallback_raises_example:
  "assembled_waypoints geometry_ex route_R1 W2 off_route route_left 0 100 = Inl ValueError"
  by (simp add: assembled_waypoints_def locate_step_def closest_step_def geodesic_kilometers_def
        coords_def route_R1_def mk_route_def W1_def W2_def W3_def off_route_def mk_waypoint_def
        geometry_ex_def)

lemma nearest_waypoint_single:
  "nearest_waypoint cd p [w] = Some (w, 0, cd (coords p) (coords w))"
  by (simp add: nearest_waypoint_def nearest_step_def)

lemma score_alternative_plain:
  assumes "weather_service rr = None"
    and "create_rerouted_path g rr cur b pos alt w (int k) u = Inr (r', u')"
  shows "\<exists>c. score_alternative g rr cur b pos alt w k d u = Inr (c, u') \<and> cand_route c = alt"
  using assms by (simp add: score_alternative_def Let_def)

text \<open>
  C5, as stated, fails: the current route below has a reroute history, so its own path
  type is not among the used path types, and the single alternative of that same path
  type comes back as a candidate.
\<close>

theorem used_set_counterexample:
  "path_type route_rerouted_left = path_type route_rerouted
   \<and> derive_used_route_types route_rerouted = [''left'']
   \<and> candidate_types (evaluate_alternatives geometry_ex
        (rerouter_plain\<lparr>used_route_types := derive_used_route_types route_rerouted\<rparr>)
        route_rerouted W2 W1 [route_rerouted_left] 100) = Some [''rerouted_left'']"
proof -
  let ?rr = "rerouter_plain\<lparr>used_route_types := derive_used_route_types route_rerouted\<rparr>"
  have ne: "waypoints route_rerouted \<noteq> []"
    and ac: "\<forall>ac. rr_aircraft ?rr = Some ac \<longrightarrow> cruise_speed_kmh ac \<noteq> 0"
    and ws: "weather_service ?rr = None"
    and wl: "waypoints route_rerouted_left = [L3]"
    and pt: "path_type route_rerouted_left = ''rerouted_left''"
      "path_type route_rerouted = ''rerouted_left''"
    and sk: "\<not> skipped ?rr route_rerouted_left"
    and loc: "(\<exists>w \<in> set (waypoints route_rerouted). wp_id w = wp_id W1)
              \<or> (\<bar>latitude W1\<bar> \<le> 90
                  \<and> (\<forall>w \<in> set (waypoints route_rerouted). \<bar>latitude w\<bar> \<le> 90))"
    by (simp_all add: route_rerouted_def route_R1_def route_rerouted_left_def mk_route_def
          rerouter_plain_def skipped_def derive_used_route_types_def)
  from create_rerouted_path_total [OF ne ac loc, of geometry_ex W2 route_rerouted_left L3 0 100]
  obtain r' u' where "create_rerouted_path geometry_ex ?rr route_rerouted W2 W1
                        route_rerouted_left L3 (int 0) 100 = Inr (r', u')"
    by auto
  from score_alternative_plain [OF ws this]
  obtain c where "score_alternative geometry_ex ?rr route_rerouted W2 W1 route_rerouted_left L3 0
                    (calculate_distance geometry_ex (coords W1) (coords L3)) 100 = Inr (c, u')"
    and "cand_route c = route_rerouted_left"
    by blast
  then have "candidate_types (evaluate_alternatives geometry_ex ?rr route_rerouted W2 W1
               [route_rerouted_left] 100) = Some [''rerouted_left'']"
    using sk by (simp add: candidate_types_def evaluate_alternatives_def wl pt
                   nearest_waypoint_single)
  then show ?thesis
    by (simp add: pt derive_used_route_types_def route_rerouted_def)
qed

section \<open>Properties of the registry\<close>

lemma list_index_Some:
  "list_index P xs = Some i \<Longrightarrow> i < length xs \<and> P (xs ! i)"
proof (induction xs arbitrary: i)
  case Nil
  then show ?case by simp
next
  case (Cons x xs)
  then show ?case by (auto split: if_splits)
qed

lemma length_mark_waypoints [simp]: "length (mark_waypoints wps i) = length wps"
  by (simp add: mark_waypoints_def Let_def)

lemma nth_mark_waypoints:
  "i < length wps \<Longrightarrow> j < length wps \<Longrightarrow>
     mark_waypoints wps i ! j =
       (if j = i then mark_as_blocked (wps ! j)
        else if j + 1 = i then mark_as_active (wps ! j)
        else wps ! j)"
  by (auto simp: mark_waypoints_def Let_def nth_list_update)

lemma drop_mark_waypoints: "drop (Suc i) (mark_waypoints wps i) = drop (Suc i) wps"
  by (simp add: mark_waypoints_def Let_def drop_update_cancel)

lemma take_mark_waypoints:
  "take i (mark_waypoints wps i) = (take i wps)[i - 1 := mark_as_active (wps ! (i - 1))]"
  by (cases i) (simp_all add: mark_waypoints_def Let_def take_update_swap list_update_beyond)

lemma splice_bypass_eq:
  "i < length wps \<Longrightarrow>
   splice_bypass wps i seg = take i wps @ butlast (tl seg) @ drop (Suc i) wps"
proof -
  have "butlast (tl seg) = []" if "\<not> 2 < length seg"
  proof (cases seg)
    case Nil
    then show ?thesis by simp
  next
    case (Cons a as)
    with that have "length as \<le> 1" by simp
    then have "as = [] \<or> (\<exists>b. as = [b])"
      by (cases as) auto
    with Cons show ?thesis by auto
  qed
  then show ?thesis
    by (auto simp: splice_bypass_def)
qed


lemma handle_found:
  assumes r: "active_routes adj rid = Some r"
    and i: "list_index (\<lambda>w. str_nat (wp_id w) = wid) (waypoints r) = Some i"
  shows "handle_blocked_waypoint gen opt adj rid wid u =
     (let r1 = r\<lparr>waypoints := mark_waypoints (waypoints r) i\<rparr>;
          adj1 = adj\<lparr>active_routes := (active_routes adj)(rid \<mapsto> r1)\<rparr>
      in case bypass_segment gen opt r1 i u of
           (Inl e, u') \<Rightarrow> (Inl e, adj1, u')
         | (Inr None, u') \<Rightarrow> (Inr None, adj1, u')
         | (Inr (Some seg), u') \<Rightarrow>
             if waypoints seg = [] then (Inr None, adj1, u')
             else (Inr (Some (r1\<lparr>waypoints := splice_bypass (waypoints r1) i (waypoints seg)\<rparr>)),
                   adj\<lparr>active_routes := (active_routes adj)
                        (rid \<mapsto> r1\<lparr>waypoints := splice_bypass (waypoints r1) i (waypoints seg)\<rparr>)\<rparr>,
                   u'))"
  by (simp add: handle_blocked_waypoint_def r i Let_def
        split: prod.splits sum.splits option.splits)

text \<open>
  C1, as the code has it. When \<^verbatim>\<open>handle_blocked_waypoint\<close> returns \<^verbatim>\<open>None\<close> after it has
  found the route and the waypoint, the registry differs from the one before in the entry
  of that route only, and that entry only in the status of two waypoints: the waypoint
  list keeps its length, the blocked waypoint is BLOCKED, the waypoint before it (if any)
  is ACTIVE, and every other waypoint and every other field of the route is as before.
\<close>

theorem handle_blocked_waypoint_failure:
  assumes r: "active_routes adj rid = Some r"
    and i: "list_index (\<lambda>w. str_nat (wp_id w) = wid) (waypoints r) = Some i"
    and res: "handle_blocked_waypoint gen opt adj rid wid u = (Inr None, adj', u')"
  shows "active_routes adj'
           = (active_routes adj)(rid \<mapsto> r\<lparr>waypoints := mark_waypoints (waypoints r) i\<rparr>)
         \<and> length (mark_waypoints (waypoints r) i) = length (waypoints r)
         \<and> (\<forall>j < length (waypoints r).
               mark_waypoints (waypoints r) i ! j =
                 (if j = i then (waypoints r ! j)\<lparr>status := BLOCKED\<rparr>
                  else if j + 1 = i then (waypoints r ! j)\<lparr>status := ACTIVE\<rparr>
                  else waypoints r ! j))"
proof -
  have "active_routes adj'
           = (active_routes adj)(rid \<mapsto> r\<lparr>waypoints := mark_waypoints (waypoints r) i\<rparr>)"
    using res unfolding handle_found [OF r i] Let_def
    by (auto split: prod.splits sum.splits option.splits if_splits)
  moreover have "i < length (waypoints r)"
    using list_index_Some [OF i] by simp
  ultimately show ?thesis
    by (simp add: nth_mark_waypoints mark_as_blocked_def mark_as_active_def)
qed

text \<open>
  C8. When \<^verbatim>\<open>handle_blocked_waypoint\<close> returns a route, the bypass request has produced a
  segment and the waypoints of the returned route are the original waypoints before the
  blocked one (the last of them marked ACTIVE by the handler), then the waypoints of the
  segment without its first and last, then the original waypoints after the blocked one.
  The reroute history is untouched, the registry holds the returned route, and the
  identifier of the blocked waypoint does not occur in the result, given that the
  identifiers of the original waypoints are distinct and none of the segment's interior
  waypoints carries it.
\<close>

theorem handle_blocked_waypoint_success:
  assumes r: "active_routes adj rid = Some r"
    and i: "list_index (\<lambda>w. str_nat (wp_id w) = wid) (waypoints r) = Some i"
    and res: "handle_blocked_waypoint gen opt adj rid wid u = (Inr (Some r'), adj', u')"
  shows "\<exists>seg. bypass_segment gen opt (r\<lparr>waypoints := mark_waypoints (waypoints r) i\<rparr>) i u
                  = (Inr (Some seg), u')
           \<and> waypoints r' = (take i (waypoints r))[i - 1 := (waypoints r ! (i - 1))\<lparr>status := ACTIVE\<rparr>]
                              @ butlast (tl (waypoints seg))
                              @ drop (i + 1) (waypoints r)
           \<and> reroute_history r' = reroute_history r
           \<and> active_routes adj' = (active_routes adj)(rid \<mapsto> r')
           \<and> (distinct (map wp_id (waypoints r))
                \<and> wp_id (waypoints r ! i) \<notin> wp_id ` set (butlast (tl (waypoints seg)))
                \<longrightarrow> wp_id (waypoints r ! i) \<notin> wp_id ` set (waypoints r'))"
proof -
  let ?r1 = "r\<lparr>waypoints := mark_waypoints (waypoints r) i\<rparr>"
  have il: "i < length (waypoints r)"
    using list_index_Some [OF i] by simp
  from res obtain seg where seg: "bypass_segment gen opt ?r1 i u = (Inr (Some seg), u')"
    and ne: "waypoints seg \<noteq> []"
    and r': "r' = ?r1\<lparr>waypoints := splice_bypass (waypoints ?r1) i (waypoints seg)\<rparr>"
    and adj': "adj' = adj\<lparr>active_routes := (active_routes adj)(rid \<mapsto> r')\<rparr>"
    unfolding handle_found [OF r i] Let_def
    by (auto split: prod.splits sum.splits option.splits if_splits)
  have wps: "waypoints r' = (take i (waypoints r))[i - 1 := (waypoints r ! (i - 1))\<lparr>status := ACTIVE\<rparr>]
                              @ butlast (tl (waypoints seg))
                              @ drop (i + 1) (waypoints r)"
    using il by (simp add: r' splice_bypass_eq take_mark_waypoints drop_mark_waypoints
                   mark_as_active_def)
  have ids: "wp_id (waypoints r ! i) \<notin> wp_id ` set (waypoints r')"
    if d: "distinct (map wp_id (waypoints r))"
      and s: "wp_id (waypoints r ! i) \<notin> wp_id ` set (butlast (tl (waypoints seg)))"
  proof -
    have split: "map wp_id (waypoints r)
        = map wp_id (take i (waypoints r)) @ wp_id (waypoints r ! i) # map wp_id (drop (Suc i) (waypoints r))"
      using il by (metis Cons_nth_drop_Suc append_take_drop_id list.simps(9) map_append)
    with d have a: "wp_id (waypoints r ! i) \<notin> set (map wp_id (take i (waypoints r)))"
      and b: "wp_id (waypoints r ! i) \<notin> set (map wp_id (drop (Suc i) (waypoints r)))"
      by (metis distinct_append distinct.simps(2) disjoint_iff list.set_intros(1) not_distinct_conv_prefix)+
    have c: "map wp_id ((take i (waypoints r))[i - 1 := (waypoints r ! (i - 1))\<lparr>status := ACTIVE\<rparr>])
           = map wp_id (take i (waypoints r))"
    proof (rule nth_equalityI)
      show "length (map wp_id ((take i (waypoints r))[i - 1 := (waypoints r ! (i - 1))\<lparr>status := ACTIVE\<rparr>]))
              = length (map wp_id (take i (waypoints r)))"
        by simp
    next
      fix j
      assume "j < length (map wp_id ((take i (waypoints r))[i - 1 := (waypoints r ! (i - 1))\<lparr>status := ACTIVE\<rparr>]))"
      then have j: "j < length (take i (waypoints r))" by simp
      then show "map wp_id ((take i (waypoints r))[i - 1 := (waypoints r ! (i - 1))\<lparr>status := ACTIVE\<rparr>]) ! j
                   = map wp_id (take i (waypoints r)) ! j"
        by (cases "j = i - 1") (simp_all add: nth_list_update)
    qed
    show ?thesis
      using a b s c unfolding wps
      by (metis (no_types, lifting) Suc_eq_plus1 Un_iff image_set map_append set_append)
  qed
  show ?thesis
    using seg wps ids by (auto simp: r' adj')
qed

lemma str_nat_examples [simp]: "str_nat 11 = ''11''" "str_nat 12 = ''12''" "str_nat 13 = ''13''"
  "str_nat 100 = ''100''"
  by (simp_all add: str_nat.simps digit_char_def)

lemma example_registered: "active_routes adjuster_ex ''1'' = Some route_R1"
  by (simp add: adjuster_ex_def register_route_def route_R1_def mk_route_def digit_char_def)

lemma example_index: "list_index (\<lambda>w. str_nat (wp_id w) = ''12'') (waypoints route_R1) = Some (Suc 0)"
  by (simp add: route_R1_def mk_route_def W1_def W2_def W3_def mk_waypoint_def)

lemma waypoints_R1: "waypoints route_R1 = [W1, W2, W3]"
  by (simp add: route_R1_def mk_route_def)

lemma example_marked: "mark_waypoints [W1, W2, W3] (Suc 0) = [W1\<lparr>status := ACTIVE\<rparr>, W2\<lparr>status := BLOCKED\<rparr>, W3]"
  by (simp add: mark_waypoints_def mark_as_blocked_def mark_as_active_def)

lemma example_bypass: "bypass_segment gen_ex opt (route_R1\<lparr>waypoints := mark_waypoints (waypoints route_R1) (Suc 0)\<rparr>) (Suc 0) 100
   = (opt (optimization_method route_R1) [route_bypass], 101)"
  by (simp add: waypoints_R1 example_marked bypass_segment_def gen_ex_def Let_def)

lemma example_handled: "handle_blocked_waypoint gen_ex opt_first adjuster_ex ''1'' ''12'' 100
   = (Inr (Some (route_R1\<lparr>waypoints := [W1\<lparr>status := ACTIVE\<rparr>, B1, W3]\<rparr>)),
      adjuster_ex\<lparr>active_routes := (active_routes adjuster_ex)
        (''1'' \<mapsto> route_R1\<lparr>waypoints := [W1\<lparr>status := ACTIVE\<rparr>, B1, W3]\<rparr>)\<rparr>, 101)"
  unfolding handle_found [OF example_registered example_index] Let_def example_bypass
  by (simp add: opt_first_def waypoints_R1 example_marked splice_bypass_def route_bypass_def mk_route_def)

lemma example_unhandled: "handle_blocked_waypoint gen_ex opt_none adjuster_ex ''1'' ''12'' 100
   = (Inr None,
      adjuster_ex\<lparr>active_routes := (active_routes adjuster_ex)
        (''1'' \<mapsto> route_R1\<lparr>waypoints := [W1\<lparr>status := ACTIVE\<rparr>, W2\<lparr>status := BLOCKED\<rparr>, W3]\<rparr>)\<rparr>, 101)"
  unfolding handle_found [OF example_registered example_index] Let_def example_bypass
  by (simp add: opt_none_def waypoints_R1 example_marked)

theorem handle_blocked_waypoint_success_witness:
  "active_routes adjuster_ex ''1'' = Some route_R1
   \<and> list_index (\<lambda>w. str_nat (wp_id w) = ''12'') (waypoints route_R1) = Some 1
   \<and> returned_ids (handle_blocked_waypoint gen_ex opt_first adjuster_ex ''1'' ''12'' 100)
       = Some [11, 31, 13]
   \<and> distinct (map wp_id (waypoints route_R1))
   \<and> wp_id (waypoints route_R1 ! 1) = 12"
  using handle_blocked_waypoint_success [OF example_registered example_index example_handled] example_registered example_index
  by (simp add: example_handled returned_ids_def route_R1_def mk_route_def W1_def W2_def W3_def B1_def
        mk_waypoint_def)

theorem handle_blocked_waypoint_failure_witness:
  "active_routes adjuster_ex ''1'' = Some route_R1
   \<and> list_index (\<lambda>w. str_nat (wp_id w) = ''12'') (waypoints route_R1) = Some 1
   \<and> fst (handle_blocked_waypoint gen_ex opt_none adjuster_ex ''1'' ''12'' 100) = Inr None
   \<and> map (\<lambda>w. (wp_id w, name w, latitude w, longitude w, order w))
         (mark_waypoints (waypoints route_R1) 1)
       = map (\<lambda>w. (wp_id w, name w, latitude w, longitude w, order w)) (waypoints route_R1)"
  using handle_blocked_waypoint_failure [OF example_registered example_index example_unhandled] example_registered example_index
  by (simp add: example_unhandled waypoints_R1 example_marked)

text \<open>
  C1, as stated, fails: the optimizer below returns no segment, the handler returns
  \<^verbatim>\<open>None\<close>, and the stored route has two waypoint statuses changed.
\<close>

theorem stored_route_untouched_counterexample:
  "fst (handle_blocked_waypoint gen_ex opt_none adjuster_ex ''1'' ''12'' 100) = Inr None
   \<and> stored_statuses adjuster_ex ''1'' = Some [PENDING, PENDING, PENDING]
   \<and> stored_statuses (fst (snd (handle_blocked_waypoint gen_ex opt_none adjuster_ex ''1'' ''12'' 100)))
        ''1'' = Some [ACTIVE, BLOCKED, PENDING]"
  by (simp add: example_unhandled stored_statuses_def example_registered route_R1_def mk_route_def W1_def W2_def W3_def
        mk_waypoint_def)

end
